theory Spec2Isabelle
  imports Complex_Main "HOL-Library.AList"
begin

section \<open>JavaScript values used by the warranty tracker\<close>

text \<open>
  The server (\<^verbatim>\<open>src/server/storage.ts\<close>, \<^verbatim>\<open>src/server/routes.ts\<close>) is TypeScript.
  A \<^verbatim>\<open>Date\<close> object holds a time value: an integral number of milliseconds since
  1970-01-01T00:00:00Z, or NaN for an Invalid Date.  The numbers that the code handles
  (time values, ratings, counts) are integers inside the range in which IEEE doubles are
  exact, so they are \<open>int\<close> here, and NaN is \<open>None\<close>.  The two quotients that the code
  forms, a difference of time values by the milliseconds of a day and a sum of ratings
  by their number, are \<open>rat\<close>: the double quotient of such integers is rounded, but it
  lies on the same side of every integer and of every half as the exact quotient, so
  \<^verbatim>\<open>Math.ceil\<close> and \<^verbatim>\<open>Math.round\<close> of it are those of the exact quotient.
\<close>

datatype Date = TimeValue int | InvalidDate

fun getTime :: "Date \<Rightarrow> int option" where
  "getTime (TimeValue t) = Some t"
| "getTime InvalidDate = None"

definition Math_ceil :: "rat \<Rightarrow> int" where
  "Math_ceil x = \<lceil>x\<rceil>"

definition Math_round :: "rat \<Rightarrow> int" where
  \<comment> \<open>\<^verbatim>\<open>Math.round\<close>: the nearest integer, a tie going towards plus infinity\<close>
  "Math_round x = \<lfloor>x + 1 / 2\<rfloor>"

subsection \<open>Derived warranty status (certificate and export routes)\<close>

text \<open>
  \<^verbatim>\<open>
  const daysRemaining = Math.ceil(
    (warrantyExpiration.getTime() - new Date().getTime()) / (1000 * 60 * 60 * 24));
  const isExpired = daysRemaining < 0;
  ...
  doc.text(`Dias Restantes: ${Math.max(daysRemaining, 0)}`);
  \<close>
  The current time \<^verbatim>\<open>new Date().getTime()\<close> is the argument \<open>now\<close>.  A comparison with
  NaN is false, and \<^verbatim>\<open>Math.max(NaN, 0)\<close> is NaN.
\<close>

definition daysRemaining :: "Date \<Rightarrow> int \<Rightarrow> int option" where
  "daysRemaining warrantyExpiration now =
     (case getTime warrantyExpiration of
        None \<Rightarrow> None
      | Some t \<Rightarrow> Some (Math_ceil (of_int (t - now) / of_int (1000 * 60 * 60 * 24))))"

definition isExpired :: "int option \<Rightarrow> bool" where
  "isExpired days = (case days of None \<Rightarrow> False | Some n \<Rightarrow> n < 0)"

definition daysDisplayed :: "int option \<Rightarrow> int option" where
  \<comment> \<open>\<^verbatim>\<open>Math.max(daysRemaining, 0)\<close>\<close>
  "daysDisplayed days = (case days of None \<Rightarrow> None | Some n \<Rightarrow> Some (max n 0))"

datatype warrantyStatus = Expirada | Expira_em_Breve | Valida

definition warrantyStatus :: "int option \<Rightarrow> warrantyStatus" where
  \<comment> \<open>the export route: \<^verbatim>\<open>daysRemaining < 0 ? "Expirada" : daysRemaining <= 90 ? "Expira em Breve" : "Valida"\<close>\<close>
  "warrantyStatus days =
     (if (case days of None \<Rightarrow> False | Some n \<Rightarrow> n < 0) then Expirada
      else if (case days of None \<Rightarrow> False | Some n \<Rightarrow> n \<le> 90) then Expira_em_Breve
      else Valida)"

subsection \<open>Calendar arithmetic of \<^verbatim>\<open>Date\<close> (ECMAScript, Date objects)\<close>

text \<open>
  The functions below are the abstract operations of the language definition with their
  names.  \<open>YearFromTime t\<close> is specified there as the largest year \<open>y\<close> with
  \<open>TimeFromYear y \<le> t\<close>; here it is computed through the 400, 100, 4 and 1 year cycles
  counted from 1601-01-01, and \<open>YearFromDay_bounds\<close> below proves that this is that year.
\<close>

definition msPerDay :: int where
  "msPerDay = 86400000"

definition Day :: "int \<Rightarrow> int" where
  "Day t = t div msPerDay"

definition TimeWithinDay :: "int \<Rightarrow> int" where
  "TimeWithinDay t = t mod msPerDay"

definition DaysInYear :: "int \<Rightarrow> int" where
  "DaysInYear y =
     (if y mod 4 \<noteq> 0 then 365 else if y mod 100 \<noteq> 0 then 366
      else if y mod 400 \<noteq> 0 then 365 else 366)"

definition DayFromYear :: "int \<Rightarrow> int" where
  "DayFromYear y =
     365 * (y - 1970) + (y - 1969) div 4 - (y - 1901) div 100 + (y - 1601) div 400"

definition YearFromDay :: "int \<Rightarrow> int" where
  "YearFromDay D =
     (let N = D + 134774;
          a = N div 146097; r = N mod 146097;
          b = min 3 (r div 36524); r2 = r - 36524 * b;
          c = r2 div 1461; r3 = r2 mod 1461;
          d = min 3 (r3 div 365)
      in 1601 + 400 * a + 100 * b + 4 * c + d)"

definition YearFromTime :: "int \<Rightarrow> int" where
  "YearFromTime t = YearFromDay (Day t)"

definition InLeapYear :: "int \<Rightarrow> int" where
  "InLeapYear t = (if DaysInYear (YearFromTime t) = 366 then 1 else 0)"

definition DayWithinYear :: "int \<Rightarrow> int" where
  "DayWithinYear t = Day t - DayFromYear (YearFromTime t)"

definition MonthStart :: "int \<Rightarrow> int \<Rightarrow> int" where
  \<comment> \<open>day within the year of the first day of month \<open>m\<close> (0 is January), leap flag \<open>l\<close>\<close>
  "MonthStart m l =
     (if m = 0 then 0 else if m = 1 then 31 else if m = 2 then 59 + l
      else if m = 3 then 90 + l else if m = 4 then 120 + l else if m = 5 then 151 + l
      else if m = 6 then 181 + l else if m = 7 then 212 + l else if m = 8 then 243 + l
      else if m = 9 then 273 + l else if m = 10 then 304 + l else 334 + l)"

definition DaysInMonth :: "int \<Rightarrow> int \<Rightarrow> int" where
  \<comment> \<open>the length of month \<open>m\<close>, for stating the calendar lemmas\<close>
  "DaysInMonth m l =
     (if m = 1 then 28 + l else if m = 3 \<or> m = 5 \<or> m = 8 \<or> m = 10 then 30 else 31)"

definition MonthFromTime :: "int \<Rightarrow> int" where
  "MonthFromTime t =
     (let d = DayWithinYear t; l = InLeapYear t in
      if d < 31 then 0 else if d < 59 + l then 1 else if d < 90 + l then 2
      else if d < 120 + l then 3 else if d < 151 + l then 4 else if d < 181 + l then 5
      else if d < 212 + l then 6 else if d < 243 + l then 7 else if d < 273 + l then 8
      else if d < 304 + l then 9 else if d < 334 + l then 10 else 11)"

definition DateFromTime :: "int \<Rightarrow> int" where
  "DateFromTime t =
     DayWithinYear t - MonthStart (MonthFromTime t) (InLeapYear t) + 1"

definition MakeDay :: "int \<Rightarrow> int \<Rightarrow> int \<Rightarrow> int" where
  \<comment> \<open>the day number of the first of the month, plus \<open>date - 1\<close>: a date past the end
      of the month runs on into the next one\<close>
  "MakeDay year month date =
     (let ym = year + month div 12; mn = month mod 12 in
      DayFromYear ym + MonthStart mn (if DaysInYear ym = 366 then 1 else 0) + date - 1)"

definition MakeDate :: "int \<Rightarrow> int \<Rightarrow> int" where
  "MakeDate day time = day * msPerDay + time"

text \<open>
  Local time.  \<^verbatim>\<open>getFullYear\<close> and \<^verbatim>\<open>setFullYear\<close> work on the local time of the server's
  time zone, and the offset of a zone from UTC changes with daylight saving.  A zone is
  given by two functions (milliseconds): the offset in force at an instant, by which
  \<open>LocalTime\<close> turns a time value into local time, and the offset by which \<open>UTC\<close>
  resolves a local time to an instant.  The language definition fixes the second where
  the first leaves a choice: a local time that a change of offset skips or repeats is
  resolved with the offset in force before the change.
\<close>

record TimeZone =
  offsetAtUTC :: "int \<Rightarrow> int"
  offsetAtLocal :: "int \<Rightarrow> int"

definition LocalTime :: "TimeZone \<Rightarrow> int \<Rightarrow> int" where
  "LocalTime zone t = t + offsetAtUTC zone t"

definition UTC :: "TimeZone \<Rightarrow> int \<Rightarrow> int" where
  "UTC zone t = t - offsetAtLocal zone t"

definition not_skipped :: "TimeZone \<Rightarrow> int \<Rightarrow> bool" where
  \<comment> \<open>the local time \<open>t\<close> occurs in the zone: the instant it resolves to shows it again\<close>
  "not_skipped zone t = (LocalTime zone (UTC zone t) = t)"

definition fixed_offset :: "int \<Rightarrow> TimeZone" where
  \<comment> \<open>a zone without daylight saving\<close>
  "fixed_offset tza = \<lparr>offsetAtUTC = (\<lambda>t. tza), offsetAtLocal = (\<lambda>t. tza)\<rparr>"

definition utc :: TimeZone where
  "utc = fixed_offset 0"

text \<open>
  Western European time as in Lisbon under the present rule: one hour ahead of UTC from
  01:00 UTC on the last Sunday of March to 01:00 UTC on the last Sunday of October.
  The local hour from 01:00 on the first of these days is skipped, the local hour from
  01:00 on the second is repeated.  The day of the week of day number \<open>d\<close> is
  \<open>(d + 4) mod 7\<close>, 0 for Sunday.
\<close>

definition lastSunday :: "int \<Rightarrow> int" where
  \<comment> \<open>the last Sunday not after day number \<open>d\<close>\<close>
  "lastSunday d = d - (d + 4) mod 7"

definition summerTimeStart :: "int \<Rightarrow> int" where
  "summerTimeStart y = MakeDate (lastSunday (MakeDay y 2 31)) 3600000"

definition summerTimeEnd :: "int \<Rightarrow> int" where
  "summerTimeEnd y = MakeDate (lastSunday (MakeDay y 9 31)) 3600000"

definition western_europe :: TimeZone where
  "western_europe =
     \<lparr>offsetAtUTC =
        (\<lambda>t. if summerTimeStart (YearFromTime t) \<le> t \<and> t < summerTimeEnd (YearFromTime t)
              then 3600000 else 0),
      offsetAtLocal =
        (\<lambda>t. if summerTimeStart (YearFromTime t) + 3600000 \<le> t
                 \<and> t < summerTimeEnd (YearFromTime t) + 3600000
              then 3600000 else 0)\<rparr>"

definition TimeClip :: "int \<Rightarrow> Date" where
  "TimeClip t = (if \<bar>t\<bar> > 8640000000000000 then InvalidDate else TimeValue t)"

definition getFullYear :: "TimeZone \<Rightarrow> Date \<Rightarrow> int option" where
  "getFullYear zone d =
     (case d of InvalidDate \<Rightarrow> None | TimeValue t \<Rightarrow> Some (YearFromTime (LocalTime zone t)))"


definition getDate :: "TimeZone \<Rightarrow> Date \<Rightarrow> int option" where
  "getDate zone d =
     (case d of InvalidDate \<Rightarrow> None | TimeValue t \<Rightarrow> Some (DateFromTime (LocalTime zone t)))"

definition withFullYear :: "int \<Rightarrow> int \<Rightarrow> int" where
  \<comment> \<open>the local time \<open>t\<close> with its year replaced by \<open>y\<close>:
      \<open>MakeDate (MakeDay y (MonthFromTime t) (DateFromTime t)) (TimeWithinDay t)\<close>\<close>
  "withFullYear t y = MakeDate (MakeDay y (MonthFromTime t) (DateFromTime t)) (TimeWithinDay t)"

definition setFullYear :: "TimeZone \<Rightarrow> Date \<Rightarrow> int option \<Rightarrow> Date" where
  \<comment> \<open>a NaN year gives an Invalid Date; an Invalid Date is taken as time 0\<close>
  "setFullYear zone d year =
     (case year of
        None \<Rightarrow> InvalidDate
      | Some y \<Rightarrow>
          (let t = (case d of InvalidDate \<Rightarrow> 0 | TimeValue tv \<Rightarrow> LocalTime zone tv)
           in TimeClip (UTC zone (withFullYear t y))))"

subsection \<open>\<^verbatim>\<open>Map\<close> and \<^verbatim>\<open>Array\<close>\<close>

text \<open>
  A \<^verbatim>\<open>Map<string, V>\<close> keeps its entries in insertion order: an association list.
  \<^verbatim>\<open>set\<close> on a key that is present replaces the value in place, on a new key it
  appends; \<^verbatim>\<open>delete\<close> tells whether the key was present.
\<close>

type_synonym 'v Map = "(string \<times> 'v) list"

definition Map_get :: "'v Map \<Rightarrow> string \<Rightarrow> 'v option" where
  "Map_get m k = map_of m k"

definition Map_set :: "'v Map \<Rightarrow> string \<Rightarrow> 'v \<Rightarrow> 'v Map" where
  "Map_set m k v = AList.update k v m"

definition Map_has :: "'v Map \<Rightarrow> string \<Rightarrow> bool" where
  "Map_has m k = (map_of m k \<noteq> None)"

definition Map_delete :: "'v Map \<Rightarrow> string \<Rightarrow> 'v Map" where
  "Map_delete m k = AList.delete k m"

definition Map_values :: "'v Map \<Rightarrow> 'v list" where
  "Map_values m = map snd m"

text \<open>
  \<^verbatim>\<open>Array.prototype.sort(compare)\<close> is stable; \<open>compare a b \<le> 0\<close> leaves \<open>a\<close> before
  \<open>b\<close>.  A comparator that yields NaN counts as 0.
\<close>

fun insert_sorted :: "('a \<Rightarrow> 'a \<Rightarrow> int) \<Rightarrow> 'a \<Rightarrow> 'a list \<Rightarrow> 'a list" where
  "insert_sorted compare x [] = [x]"
| "insert_sorted compare x (y # ys) =
     (if compare x y \<le> 0 then x # y # ys else y # insert_sorted compare x ys)"

definition Array_sort :: "('a \<Rightarrow> 'a \<Rightarrow> int) \<Rightarrow> 'a list \<Rightarrow> 'a list" where
  "Array_sort compare xs = foldr (insert_sorted compare) xs []"

definition newest_first :: "Date \<Rightarrow> Date \<Rightarrow> int" where
  \<comment> \<open>\<^verbatim>\<open>new Date(b.createdAt).getTime() - new Date(a.createdAt).getTime()\<close> for \<open>a\<close>, \<open>b\<close>\<close>
  "newest_first a b =
     (case (getTime b, getTime a) of (Some tb, Some ta) \<Rightarrow> tb - ta | _ \<Rightarrow> 0)"

definition spread :: "'a \<Rightarrow> 'a option \<Rightarrow> 'a" where
  \<comment> \<open>one field of \<^verbatim>\<open>{ ...old, ...updates }\<close>: the update's value when it has the key\<close>
  "spread old upd = (case upd of None \<Rightarrow> old | Some v \<Rightarrow> v)"


section \<open>The entities (\<^verbatim>\<open>shared/schema.ts\<close>)\<close>

text \<open>
  Each table has an insert type (what a create operation is given) and a select type,
  which adds the columns the store fills in; the select type is a record extending the
  insert type, as \<^verbatim>\<open>{ ...insertX, id, ... }\<close> builds it.  A nullable or optional column
  is an \<open>option\<close>, \<open>None\<close> for null or an absent key.  \<^verbatim>\<open>Partial<X>\<close> has every
  field optional: \<open>None\<close> when the key is absent.
\<close>

record InsertBrand =
  name :: string
  logoUrl :: "string option"
  supportEmail :: string
  supportPhone :: "string option"
  website :: "string option"
  category :: string

record Brand = InsertBrand +
  id :: string

record InsertProduct =
  brandId :: string
  name :: string
  model :: string
  serialNumber :: "string option"
  category :: string
  purchaseDate :: Date
  receiptUrl :: "string option"
  photoUrls :: "string list option"
  "notes" :: "string option"
  hasExtension :: "bool option"
  extendedExpirationDate :: "Date option"
  insuranceProvider :: "string option"
  agentName :: "string option"
  policyNumber :: "string option"
  extensionCost :: "int option"

record Product = InsertProduct +
  id :: string
  warrantyExpiration :: Date

record PartialProduct =
  id :: "string option"
  brandId :: "string option"
  name :: "string option"
  model :: "string option"
  serialNumber :: "string option option"
  category :: "string option"
  purchaseDate :: "Date option"
  warrantyExpiration :: "Date option"
  receiptUrl :: "string option option"
  photoUrls :: "string list option option"
  "notes" :: "string option option"
  hasExtension :: "bool option option"
  extendedExpirationDate :: "Date option option"
  insuranceProvider :: "string option option"
  agentName :: "string option option"
  policyNumber :: "string option option"
  extensionCost :: "int option option"

record WarrantyExtension =
  extendedExpirationDate :: Date
  insuranceProvider :: string
  agentName :: string
  policyNumber :: string
  extensionCost :: "int option"

record InsertReview =
  productId :: string
  rating :: int
  title :: "string option"
  content :: "string option"
  pros :: "string list option"
  cons :: "string list option"
  recommend :: "bool option"

record Review = InsertReview +
  id :: string
  createdAt :: Date

record InsertSupportRequest =
  productId :: string
  issueDescription :: string
  category :: string
  severity :: string

record SupportRequest = InsertSupportRequest +
  id :: string
  status :: string
  emailSentAt :: "Date option"
  createdAt :: Date

record PartialSupportRequest =
  id :: "string option"
  productId :: "string option"
  issueDescription :: "string option"
  category :: "string option"
  severity :: "string option"
  status :: "string option"
  emailSentAt :: "Date option option"
  createdAt :: "Date option"

record InsertServiceProvider =
  name :: string
  email :: string
  phone :: "string option"
  website :: "string option"
  address :: string
  city :: string
  district :: string
  supportedBrands :: "string list option"

record ServiceProvider = InsertServiceProvider +
  id :: string
  averageRating :: "int option"
  createdAt :: Date

record PartialServiceProvider =
  id :: "string option"
  name :: "string option"
  email :: "string option"
  phone :: "string option option"
  website :: "string option option"
  address :: "string option"
  city :: "string option"
  district :: "string option"
  supportedBrands :: "string list option option"
  averageRating :: "int option option"
  createdAt :: "Date option"

record InsertServiceProviderReview =
  providerId :: string
  rating :: int
  comment :: "string option"

record ServiceProviderReview = InsertServiceProviderReview +
  id :: string
  createdAt :: Date

record InsertNotification =
  productId :: string
  type :: string
  sent :: "bool option"
  sentAt :: "Date option"

record Notification = InsertNotification +
  id :: string
  createdAt :: Date

record Favorite =
  id :: string
  type :: string
  targetId :: string
  createdAt :: Date

record InsertClientProfile =
  fullName :: string
  email :: string
  phoneNumber :: string
  taxNumber :: "string option"
  address :: string
  city :: string
  postalCode :: "string option"

record ClientProfile = InsertClientProfile +
  id :: string
  createdAt :: Date
  updatedAt :: Date

record PartialClientProfile =
  id :: "string option"
  fullName :: "string option"
  email :: "string option"
  phoneNumber :: "string option"
  taxNumber :: "string option option"
  address :: "string option"
  city :: "string option"
  postalCode :: "string option option"
  createdAt :: "Date option"
  updatedAt :: "Date option"

record MemStorage =
  brands :: "Brand Map"
  products :: "Product Map"
  reviews :: "Review Map"
  supportRequests :: "SupportRequest Map"
  serviceProviders :: "ServiceProvider Map"
  serviceProviderReviews :: "ServiceProviderReview Map"
  notifications :: "Notification Map"
  favorites :: "Favorite Map"
  clientProfile :: "ClientProfile option"

section \<open>\<^verbatim>\<open>MemStorage\<close> (\<^verbatim>\<open>server/storage.ts\<close>)\<close>

text \<open>
  Every operation takes the store and returns its result with the store it leaves.
  The value of \<^verbatim>\<open>randomUUID()\<close> is the argument \<open>newId\<close> and the time of
  \<^verbatim>\<open>new Date()\<close> is the argument \<open>now\<close>.  The constructor seeds the brands: the
  literal brands of \<^verbatim>\<open>seedBrands\<close>, each with its identifier, are the argument.
\<close>

definition seedBrands :: "(string \<times> InsertBrand) list \<Rightarrow> Brand Map" where
  "seedBrands bs =
     fold (\<lambda>(newId, brand) m. Map_set m newId (InsertBrand.extend brand (Brand.fields newId)))
       bs []"

definition new_MemStorage :: "(string \<times> InsertBrand) list \<Rightarrow> MemStorage" where
  "new_MemStorage bs =
     \<lparr>brands = seedBrands bs, products = [], reviews = [], supportRequests = [],
      serviceProviders = [], serviceProviderReviews = [], notifications = [],
      favorites = [], clientProfile = None\<rparr>"

subsection \<open>Brands\<close>

definition getBrand :: "MemStorage \<Rightarrow> string \<Rightarrow> Brand option" where
  "getBrand s brandKey = Map_get (brands s) brandKey"

definition createBrand :: "MemStorage \<Rightarrow> string \<Rightarrow> InsertBrand \<Rightarrow> Brand \<times> MemStorage" where
  "createBrand s newId insertBrand =
     (let brand = InsertBrand.extend insertBrand (Brand.fields newId)
      in (brand, s\<lparr>brands := Map_set (brands s) newId brand\<rparr>))"

subsection \<open>Products\<close>

definition getProduct :: "MemStorage \<Rightarrow> string \<Rightarrow> Product option" where
  "getProduct s productKey = Map_get (products s) productKey"

definition defaultExpiration :: "TimeZone \<Rightarrow> Date \<Rightarrow> Date" where
  \<comment> \<open>\<^verbatim>\<open>const warrantyExpiration = new Date(purchaseDate);
      warrantyExpiration.setFullYear(warrantyExpiration.getFullYear() + 3);\<close>\<close>
  "defaultExpiration zone purchased =
     setFullYear zone purchased (map_option (\<lambda>y. y + 3) (getFullYear zone purchased))"

definition createProduct ::
  "TimeZone \<Rightarrow> MemStorage \<Rightarrow> string \<Rightarrow> InsertProduct \<Rightarrow> Product \<times> MemStorage" where
  "createProduct zone s newId insertProduct =
     (let purchased = InsertProduct.purchaseDate insertProduct;
          expiration = defaultExpiration zone purchased;
          product = (InsertProduct.extend insertProduct (Product.fields newId expiration))
            \<lparr>InsertProduct.purchaseDate := purchased,
             InsertProduct.photoUrls :=
               Some (case InsertProduct.photoUrls insertProduct of None \<Rightarrow> [] | Some urls \<Rightarrow> urls)\<rparr>
      in (product, s\<lparr>products := Map_set (products s) newId product\<rparr>))"

definition merge_Product :: "Product \<Rightarrow> PartialProduct \<Rightarrow> Product" where
  \<comment> \<open>\<^verbatim>\<open>{ ...product, ...updates }\<close>\<close>
  "merge_Product product updates =
     \<lparr>InsertProduct.brandId = spread (InsertProduct.brandId product) (PartialProduct.brandId updates),
      InsertProduct.name = spread (InsertProduct.name product) (PartialProduct.name updates),
      InsertProduct.model = spread (InsertProduct.model product) (PartialProduct.model updates),
      InsertProduct.serialNumber =
        spread (InsertProduct.serialNumber product) (PartialProduct.serialNumber updates),
      InsertProduct.category =
        spread (InsertProduct.category product) (PartialProduct.category updates),
      InsertProduct.purchaseDate =
        spread (InsertProduct.purchaseDate product) (PartialProduct.purchaseDate updates),
      InsertProduct.receiptUrl =
        spread (InsertProduct.receiptUrl product) (PartialProduct.receiptUrl updates),
      InsertProduct.photoUrls =
        spread (InsertProduct.photoUrls product) (PartialProduct.photoUrls updates),
      InsertProduct.notes = spread (InsertProduct.notes product) (PartialProduct.notes updates),
      InsertProduct.hasExtension =
        spread (InsertProduct.hasExtension product) (PartialProduct.hasExtension updates),
      InsertProduct.extendedExpirationDate =
        spread (InsertProduct.extendedExpirationDate product)
          (PartialProduct.extendedExpirationDate updates),
      InsertProduct.insuranceProvider =
        spread (InsertProduct.insuranceProvider product) (PartialProduct.insuranceProvider updates),
      InsertProduct.agentName =
        spread (InsertProduct.agentName product) (PartialProduct.agentName updates),
      InsertProduct.policyNumber =
        spread (InsertProduct.policyNumber product) (PartialProduct.policyNumber updates),
      InsertProduct.extensionCost =
        spread (InsertProduct.extensionCost product) (PartialProduct.extensionCost updates),
      Product.id = spread (Product.id product) (PartialProduct.id updates),
      Product.warrantyExpiration =
        spread (Product.warrantyExpiration product) (PartialProduct.warrantyExpiration updates)\<rparr>"

definition updateProduct ::
  "MemStorage \<Rightarrow> string \<Rightarrow> PartialProduct \<Rightarrow> Product option \<times> MemStorage" where
  "updateProduct s productKey updates =
     (case Map_get (products s) productKey of
        None \<Rightarrow> (None, s)
      | Some product \<Rightarrow>
          (let updated = merge_Product product updates
           in (Some updated, s\<lparr>products := Map_set (products s) productKey updated\<rparr>)))"

definition addWarrantyExtension ::
  "MemStorage \<Rightarrow> string \<Rightarrow> WarrantyExtension \<Rightarrow> Product option \<times> MemStorage" where
  "addWarrantyExtension s productKey extension =
     (case Map_get (products s) productKey of
        None \<Rightarrow> (None, s)
      | Some product \<Rightarrow>
          (let updated = product
                \<lparr>InsertProduct.hasExtension := Some True,
                 InsertProduct.extendedExpirationDate :=
                   Some (WarrantyExtension.extendedExpirationDate extension),
                 InsertProduct.insuranceProvider :=
                   Some (WarrantyExtension.insuranceProvider extension),
                 InsertProduct.agentName := Some (WarrantyExtension.agentName extension),
                 InsertProduct.policyNumber := Some (WarrantyExtension.policyNumber extension),
                 InsertProduct.extensionCost :=
                   Some (case WarrantyExtension.extensionCost extension of
                           None \<Rightarrow> 0 | Some cost \<Rightarrow> if cost = 0 then 0 else cost),
                 Product.warrantyExpiration := WarrantyExtension.extendedExpirationDate extension\<rparr>
           in (Some updated, s\<lparr>products := Map_set (products s) productKey updated\<rparr>)))"

subsection \<open>Reviews and support requests\<close>

definition getReviewsByProduct :: "MemStorage \<Rightarrow> string \<Rightarrow> Review list" where
  "getReviewsByProduct s productKey =
     Array_sort (\<lambda>a b. newest_first (Review.createdAt a) (Review.createdAt b))
       (filter (\<lambda>review. InsertReview.productId review = productKey) (Map_values (reviews s)))"

definition getAllReviews :: "MemStorage \<Rightarrow> Review list" where
  "getAllReviews s =
     Array_sort (\<lambda>a b. newest_first (Review.createdAt a) (Review.createdAt b))
       (Map_values (reviews s))"

definition createReview ::
  "MemStorage \<Rightarrow> string \<Rightarrow> int \<Rightarrow> InsertReview \<Rightarrow> Review \<times> MemStorage" where
  "createReview s newId now insertReview =
     (let review = (InsertReview.extend insertReview (Review.fields newId (TimeValue now)))
            \<lparr>InsertReview.pros :=
               Some (case InsertReview.pros insertReview of None \<Rightarrow> [] | Some ps \<Rightarrow> ps),
             InsertReview.cons :=
               Some (case InsertReview.cons insertReview of None \<Rightarrow> [] | Some cs \<Rightarrow> cs)\<rparr>
      in (review, s\<lparr>reviews := Map_set (reviews s) newId review\<rparr>))"

definition getSupportRequestsByProduct :: "MemStorage \<Rightarrow> string \<Rightarrow> SupportRequest list" where
  "getSupportRequestsByProduct s productKey =
     Array_sort (\<lambda>a b. newest_first (SupportRequest.createdAt a) (SupportRequest.createdAt b))
       (filter (\<lambda>request. InsertSupportRequest.productId request = productKey)
          (Map_values (supportRequests s)))"

definition createSupportRequest ::
  "MemStorage \<Rightarrow> string \<Rightarrow> int \<Rightarrow> int \<Rightarrow> InsertSupportRequest
     \<Rightarrow> SupportRequest \<times> MemStorage" where
  \<comment> \<open>\<open>now\<close> and \<open>now'\<close> are the two \<^verbatim>\<open>new Date()\<close> of \<^verbatim>\<open>emailSentAt\<close> and \<^verbatim>\<open>createdAt\<close>\<close>
  "createSupportRequest s newId now now' insertRequest =
     (let supportRequest = InsertSupportRequest.extend insertRequest
            (SupportRequest.fields newId ''sent'' (Some (TimeValue now)) (TimeValue now'))
      in (supportRequest, s\<lparr>supportRequests := Map_set (supportRequests s) newId supportRequest\<rparr>))"

definition merge_SupportRequest :: "SupportRequest \<Rightarrow> PartialSupportRequest \<Rightarrow> SupportRequest" where
  "merge_SupportRequest request updates =
     \<lparr>InsertSupportRequest.productId =
        spread (InsertSupportRequest.productId request) (PartialSupportRequest.productId updates),
      InsertSupportRequest.issueDescription =
        spread (InsertSupportRequest.issueDescription request)
          (PartialSupportRequest.issueDescription updates),
      InsertSupportRequest.category =
        spread (InsertSupportRequest.category request) (PartialSupportRequest.category updates),
      InsertSupportRequest.severity =
        spread (InsertSupportRequest.severity request) (PartialSupportRequest.severity updates),
      SupportRequest.id = spread (SupportRequest.id request) (PartialSupportRequest.id updates),
      SupportRequest.status =
        spread (SupportRequest.status request) (PartialSupportRequest.status updates),
      SupportRequest.emailSentAt =
        spread (SupportRequest.emailSentAt request) (PartialSupportRequest.emailSentAt updates),
      SupportRequest.createdAt =
        spread (SupportRequest.createdAt request) (PartialSupportRequest.createdAt updates)\<rparr>"

definition updateSupportRequest ::
  "MemStorage \<Rightarrow> string \<Rightarrow> PartialSupportRequest \<Rightarrow> SupportRequest option \<times> MemStorage" where
  "updateSupportRequest s requestKey updates =
     (case Map_get (supportRequests s) requestKey of
        None \<Rightarrow> (None, s)
      | Some request \<Rightarrow>
          (let updated = merge_SupportRequest request updates
           in (Some updated,
               s\<lparr>supportRequests := Map_set (supportRequests s) requestKey updated\<rparr>)))"

definition deleteProduct :: "MemStorage \<Rightarrow> string \<Rightarrow> bool \<times> MemStorage" where
  \<comment> \<open>each \<^verbatim>\<open>forEach\<close> deletes by the \<^verbatim>\<open>id\<close> field of the record it visits\<close>
  "deleteProduct s productKey =
     (let s1 = s\<lparr>reviews :=
                 fold (\<lambda>review m. Map_delete m (Review.id review))
                   (getReviewsByProduct s productKey) (reviews s)\<rparr>;
          s2 = s1\<lparr>supportRequests :=
                 fold (\<lambda>request m. Map_delete m (SupportRequest.id request))
                   (getSupportRequestsByProduct s1 productKey) (supportRequests s1)\<rparr>
      in (Map_has (products s2) productKey,
          s2\<lparr>products := Map_delete (products s2) productKey\<rparr>))"

subsection \<open>Service providers and their reviews\<close>

definition rating_or_0 :: "int option \<Rightarrow> int" where
  \<comment> \<open>\<^verbatim>\<open>p.averageRating || 0\<close>\<close>
  "rating_or_0 r = (case r of None \<Rightarrow> 0 | Some n \<Rightarrow> if n = 0 then 0 else n)"

definition getServiceProvider :: "MemStorage \<Rightarrow> string \<Rightarrow> ServiceProvider option" where
  "getServiceProvider s providerKey = Map_get (serviceProviders s) providerKey"

definition getAllServiceProviders :: "MemStorage \<Rightarrow> ServiceProvider list" where
  "getAllServiceProviders s =
     Array_sort
       (\<lambda>a b. rating_or_0 (ServiceProvider.averageRating b)
               - rating_or_0 (ServiceProvider.averageRating a))
       (Map_values (serviceProviders s))"

definition createServiceProvider ::
  "MemStorage \<Rightarrow> string \<Rightarrow> int \<Rightarrow> InsertServiceProvider \<Rightarrow> ServiceProvider \<times> MemStorage" where
  "createServiceProvider s newId now insertProvider =
     (let provider = (InsertServiceProvider.extend insertProvider
              (ServiceProvider.fields newId (Some 0) (TimeValue now)))
            \<lparr>InsertServiceProvider.supportedBrands :=
               Some (case InsertServiceProvider.supportedBrands insertProvider of
                       None \<Rightarrow> [] | Some bs \<Rightarrow> bs)\<rparr>
      in (provider, s\<lparr>serviceProviders := Map_set (serviceProviders s) newId provider\<rparr>))"

definition merge_ServiceProvider ::
  "ServiceProvider \<Rightarrow> PartialServiceProvider \<Rightarrow> ServiceProvider" where
  "merge_ServiceProvider provider updates =
     \<lparr>InsertServiceProvider.name =
        spread (InsertServiceProvider.name provider) (PartialServiceProvider.name updates),
      InsertServiceProvider.email =
        spread (InsertServiceProvider.email provider) (PartialServiceProvider.email updates),
      InsertServiceProvider.phone =
        spread (InsertServiceProvider.phone provider) (PartialServiceProvider.phone updates),
      InsertServiceProvider.website =
        spread (InsertServiceProvider.website provider) (PartialServiceProvider.website updates),
      InsertServiceProvider.address =
        spread (InsertServiceProvider.address provider) (PartialServiceProvider.address updates),
      InsertServiceProvider.city =
        spread (InsertServiceProvider.city provider) (PartialServiceProvider.city updates),
      InsertServiceProvider.district =
        spread (InsertServiceProvider.district provider) (PartialServiceProvider.district updates),
      InsertServiceProvider.supportedBrands =
        spread (InsertServiceProvider.supportedBrands provider)
          (PartialServiceProvider.supportedBrands updates),
      ServiceProvider.id =
        spread (ServiceProvider.id provider) (PartialServiceProvider.id updates),
      ServiceProvider.averageRating =
        spread (ServiceProvider.averageRating provider)
          (PartialServiceProvider.averageRating updates),
      ServiceProvider.createdAt =
        spread (ServiceProvider.createdAt provider) (PartialServiceProvider.createdAt updates)\<rparr>"

definition updateServiceProvider ::
  "MemStorage \<Rightarrow> string \<Rightarrow> PartialServiceProvider \<Rightarrow> ServiceProvider option \<times> MemStorage" where
  "updateServiceProvider s providerKey updates =
     (case Map_get (serviceProviders s) providerKey of
        None \<Rightarrow> (None, s)
      | Some provider \<Rightarrow>
          (let updated = merge_ServiceProvider provider updates
           in (Some updated,
               s\<lparr>serviceProviders := Map_set (serviceProviders s) providerKey updated\<rparr>)))"

definition deleteServiceProvider :: "MemStorage \<Rightarrow> string \<Rightarrow> bool \<times> MemStorage" where
  "deleteServiceProvider s providerKey =
     (let s1 = s\<lparr>serviceProviderReviews :=
                 fold (\<lambda>r m. Map_delete m (ServiceProviderReview.id r))
                   (filter (\<lambda>r. InsertServiceProviderReview.providerId r = providerKey)
                      (Map_values (serviceProviderReviews s)))
                   (serviceProviderReviews s)\<rparr>
      in (Map_has (serviceProviders s1) providerKey,
          s1\<lparr>serviceProviders := Map_delete (serviceProviders s1) providerKey\<rparr>))"

definition getServiceProviderReviews :: "MemStorage \<Rightarrow> string \<Rightarrow> ServiceProviderReview list" where
  "getServiceProviderReviews s providerKey =
     Array_sort
       (\<lambda>a b. newest_first (ServiceProviderReview.createdAt a) (ServiceProviderReview.createdAt b))
       (filter (\<lambda>r. InsertServiceProviderReview.providerId r = providerKey)
          (Map_values (serviceProviderReviews s)))"

definition getAverageRating :: "MemStorage \<Rightarrow> string \<Rightarrow> rat" where
  "getAverageRating s providerKey =
     (let rs = getServiceProviderReviews s providerKey in
      if length rs = 0 then 0
      else of_int (fold (\<lambda>r acc. acc + InsertServiceProviderReview.rating r) rs 0)
             / of_nat (length rs))"

definition no_updates_ServiceProvider :: PartialServiceProvider where
  \<comment> \<open>the object literal \<^verbatim>\<open>{}\<close> at type \<^verbatim>\<open>Partial<ServiceProvider>\<close>\<close>
  "no_updates_ServiceProvider =
     \<lparr>PartialServiceProvider.id = None, name = None, email = None, phone = None,
      website = None, address = None, city = None, district = None, supportedBrands = None,
      averageRating = None, createdAt = None\<rparr>"

definition createServiceProviderReview ::
  "MemStorage \<Rightarrow> string \<Rightarrow> int \<Rightarrow> InsertServiceProviderReview
     \<Rightarrow> ServiceProviderReview \<times> MemStorage" where
  "createServiceProviderReview s newId now insertReview =
     (let review = InsertServiceProviderReview.extend insertReview
            (ServiceProviderReview.fields newId (TimeValue now));
          s1 = s\<lparr>serviceProviderReviews := Map_set (serviceProviderReviews s) newId review\<rparr>;
          avgRating = getAverageRating s1 (InsertServiceProviderReview.providerId insertReview);
          s2 = snd (updateServiceProvider s1 (InsertServiceProviderReview.providerId insertReview)
                 (no_updates_ServiceProvider
                    \<lparr>PartialServiceProvider.averageRating := Some (Some (Math_round avgRating))\<rparr>))
      in (review, s2))"

subsection \<open>Notifications, favorites, client profile\<close>

definition createNotification ::
  "MemStorage \<Rightarrow> string \<Rightarrow> int \<Rightarrow> InsertNotification \<Rightarrow> Notification \<times> MemStorage" where
  "createNotification s newId now notification =
     (let newNotification =
            InsertNotification.extend notification (Notification.fields newId (TimeValue now))
      in (newNotification, s\<lparr>notifications := Map_set (notifications s) newId newNotification\<rparr>))"

definition markNotificationAsSent :: "MemStorage \<Rightarrow> string \<Rightarrow> int \<Rightarrow> bool \<times> MemStorage" where
  "markNotificationAsSent s notificationKey now =
     (case Map_get (notifications s) notificationKey of
        None \<Rightarrow> (False, s)
      | Some notification \<Rightarrow>
          (True,
           s\<lparr>notifications := Map_set (notifications s) notificationKey
                (notification\<lparr>InsertNotification.sent := Some True,
                               InsertNotification.sentAt := Some (TimeValue now)\<rparr>)\<rparr>))"

definition isFavorite :: "MemStorage \<Rightarrow> string \<Rightarrow> string \<Rightarrow> bool" where
  "isFavorite s favType target =
     list_ex (\<lambda>f. Favorite.type f = favType \<and> Favorite.targetId f = target)
       (Map_values (favorites s))"

definition toggleFavorite ::
  "MemStorage \<Rightarrow> string \<Rightarrow> int \<Rightarrow> string \<Rightarrow> string \<Rightarrow> bool \<times> MemStorage" where
  "toggleFavorite s newId now favType target =
     (let exists = list_ex (\<lambda>f. Favorite.type f = favType \<and> Favorite.targetId f = target)
                     (Map_values (favorites s))
      in if exists then
           (case find (\<lambda>(k, f). Favorite.type f = favType \<and> Favorite.targetId f = target)
                   (favorites s) of
              Some toDelete \<Rightarrow> (False, s\<lparr>favorites := Map_delete (favorites s) (fst toDelete)\<rparr>)
            | None \<Rightarrow> (False, s))
         else
           (True,
            s\<lparr>favorites := Map_set (favorites s) newId
                 \<lparr>Favorite.id = newId, type = favType, targetId = target,
                  createdAt = TimeValue now\<rparr>\<rparr>))"

definition getClientProfile :: "MemStorage \<Rightarrow> ClientProfile option" where
  "getClientProfile s = clientProfile s"

definition saveClientProfile ::
  "MemStorage \<Rightarrow> string \<Rightarrow> int \<Rightarrow> InsertClientProfile \<Rightarrow> ClientProfile \<times> MemStorage" where
  "saveClientProfile s newId now profile =
     (let clientProf = InsertClientProfile.extend profile
            (ClientProfile.fields newId (TimeValue now) (TimeValue now))
      in (clientProf, s\<lparr>clientProfile := Some clientProf\<rparr>))"

definition updateClientProfile ::
  "MemStorage \<Rightarrow> int \<Rightarrow> PartialClientProfile \<Rightarrow> ClientProfile option \<times> MemStorage" where
  "updateClientProfile s now profile =
     (case clientProfile s of
        None \<Rightarrow> (None, s)
      | Some current \<Rightarrow>
          (let updated =
                 \<lparr>InsertClientProfile.fullName =
                    spread (InsertClientProfile.fullName current) (PartialClientProfile.fullName profile),
                  InsertClientProfile.email =
                    spread (InsertClientProfile.email current) (PartialClientProfile.email profile),
                  InsertClientProfile.phoneNumber =
                    spread (InsertClientProfile.phoneNumber current)
                      (PartialClientProfile.phoneNumber profile),
                  InsertClientProfile.taxNumber =
                    spread (InsertClientProfile.taxNumber current)
                      (PartialClientProfile.taxNumber profile),
                  InsertClientProfile.address =
                    spread (InsertClientProfile.address current)
                      (PartialClientProfile.address profile),
                  InsertClientProfile.city =
                    spread (InsertClientProfile.city current) (PartialClientProfile.city profile),
                  InsertClientProfile.postalCode =
                    spread (InsertClientProfile.postalCode current)
                      (PartialClientProfile.postalCode profile),
                  ClientProfile.id =
                    spread (ClientProfile.id current) (PartialClientProfile.id profile),
                  ClientProfile.createdAt =
                    spread (ClientProfile.createdAt current) (PartialClientProfile.createdAt profile),
                  ClientProfile.updatedAt = TimeValue now\<rparr>
           in (Some updated, s\<lparr>clientProfile := Some updated\<rparr>)))"

subsection \<open>The analytics route (\<^verbatim>\<open>server/routes.ts\<close>), list of top rated providers\<close>

text \<open>
  \<^verbatim>\<open>
  topRatedProviders: providers
    .map(p => ({ id: p.id, name: p.name, rating: p.averageRating || 0, reviewCount: 0 }))
    .sort((a, b) => b.rating - a.rating)
    .slice(0, 5),
  \<close>
  where \<^verbatim>\<open>providers = await storage.getAllServiceProviders()\<close>.
\<close>

record TopRatedProvider =
  id :: string
  name :: string
  rating :: int
  reviewCount :: int

definition topRatedProviders :: "MemStorage \<Rightarrow> TopRatedProvider list" where
  "topRatedProviders s =
     take 5
       (Array_sort (\<lambda>a b. TopRatedProvider.rating b - TopRatedProvider.rating a)
          (map (\<lambda>p. \<lparr>TopRatedProvider.id = ServiceProvider.id p,
                      name = InsertServiceProvider.name p,
                      rating = rating_or_0 (ServiceProvider.averageRating p),
                      reviewCount = 0\<rparr>)
             (getAllServiceProviders s)))"

subsection \<open>Store states that the operations can produce\<close>

datatype operation =
    CreateBrand string InsertBrand
  | CreateProduct string InsertProduct
  | UpdateProduct string PartialProduct
  | DeleteProduct string
  | AddWarrantyExtension string WarrantyExtension
  | CreateReview string int InsertReview
  | CreateSupportRequest string int int InsertSupportRequest
  | UpdateSupportRequest string PartialSupportRequest
  | CreateServiceProvider string int InsertServiceProvider
  | UpdateServiceProvider string PartialServiceProvider
  | DeleteServiceProvider string
  | CreateServiceProviderReview string int InsertServiceProviderReview
  | CreateNotification string int InsertNotification
  | MarkNotificationAsSent string int
  | ToggleFavorite string int string string
  | SaveClientProfile string int InsertClientProfile
  | UpdateClientProfile int PartialClientProfile

fun perform :: "TimeZone \<Rightarrow> MemStorage \<Rightarrow> operation \<Rightarrow> MemStorage" where
  "perform zone s (CreateBrand newId b) = snd (createBrand s newId b)"
| "perform zone s (CreateProduct newId p) = snd (createProduct zone s newId p)"
| "perform zone s (UpdateProduct k u) = snd (updateProduct s k u)"
| "perform zone s (DeleteProduct k) = snd (deleteProduct s k)"
| "perform zone s (AddWarrantyExtension k e) = snd (addWarrantyExtension s k e)"
| "perform zone s (CreateReview newId now r) = snd (createReview s newId now r)"
| "perform zone s (CreateSupportRequest newId now now' r) =
     snd (createSupportRequest s newId now now' r)"
| "perform zone s (UpdateSupportRequest k u) = snd (updateSupportRequest s k u)"
| "perform zone s (CreateServiceProvider newId now p) = snd (createServiceProvider s newId now p)"
| "perform zone s (UpdateServiceProvider k u) = snd (updateServiceProvider s k u)"
| "perform zone s (DeleteServiceProvider k) = snd (deleteServiceProvider s k)"
| "perform zone s (CreateServiceProviderReview newId now r) =
     snd (createServiceProviderReview s newId now r)"
| "perform zone s (CreateNotification newId now n) = snd (createNotification s newId now n)"
| "perform zone s (MarkNotificationAsSent k now) = snd (markNotificationAsSent s k now)"
| "perform zone s (ToggleFavorite newId now favType target) =
     snd (toggleFavorite s newId now favType target)"
| "perform zone s (SaveClientProfile newId now p) = snd (saveClientProfile s newId now p)"
| "perform zone s (UpdateClientProfile now p) = snd (updateClientProfile s now p)"

inductive reachable :: "TimeZone \<Rightarrow> MemStorage \<Rightarrow> bool" for zone :: TimeZone where
  initial: "reachable zone (new_MemStorage bs)"
| step: "reachable zone s \<Longrightarrow> reachable zone (perform zone s op)"

subsection \<open>Properties of a store state\<close>

definition product_invariant :: "TimeZone \<Rightarrow> Product \<Rightarrow> bool" where
  \<comment> \<open>the warranty invariant of the data model, for one product\<close>
  "product_invariant zone p =
     (if InsertProduct.hasExtension p = Some True
      then InsertProduct.extendedExpirationDate p = Some (Product.warrantyExpiration p)
      else Product.warrantyExpiration p = defaultExpiration zone (InsertProduct.purchaseDate p))"

definition warranty_invariant :: "TimeZone \<Rightarrow> MemStorage \<Rightarrow> bool" where
  "warranty_invariant zone s = list_all (product_invariant zone) (Map_values (products s))"

definition keeps_warranty_fields :: "operation \<Rightarrow> bool" where
  \<comment> \<open>a product is not created with the extension flag set, and an update leaves the
      four fields of the invariant alone\<close>
  "keeps_warranty_fields op =
     (case op of
        CreateProduct newId p \<Rightarrow> InsertProduct.hasExtension p \<noteq> Some True
      | UpdateProduct k u \<Rightarrow>
          PartialProduct.purchaseDate u = None \<and> PartialProduct.warrantyExpiration u = None
          \<and> PartialProduct.hasExtension u = None
          \<and> PartialProduct.extendedExpirationDate u = None
      | _ \<Rightarrow> True)"

definition favorites_unique :: "Favorite Map \<Rightarrow> bool" where
  \<comment> \<open>no two favorites for the same type and target\<close>
  "favorites_unique m = distinct (map (\<lambda>f. (Favorite.type f, Favorite.targetId f)) (Map_values m))"

definition stored_under_own_id :: "MemStorage \<Rightarrow> bool" where
  \<comment> \<open>every review and support request has the key it is stored under as its \<^verbatim>\<open>id\<close>\<close>
  "stored_under_own_id s =
     (list_all (\<lambda>(k, r). Review.id r = k) (reviews s)
      \<and> list_all (\<lambda>(k, r). SupportRequest.id r = k) (supportRequests s))"

subsection \<open>Example data\<close>

definition widget :: "int \<Rightarrow> InsertProduct" where
  \<comment> \<open>the product of the spec's scenario, bought at the given time\<close>
  "widget purchased =
     \<lparr>InsertProduct.brandId = ''acme'', name = ''Widget'', model = ''W-1'', serialNumber = None,
      category = ''Tools'', purchaseDate = TimeValue purchased, receiptUrl = None,
      photoUrls = None, notes = None, hasExtension = None, extendedExpirationDate = None,
      insuranceProvider = None, agentName = None, policyNumber = None, extensionCost = None\<rparr>"

definition no_updates_Product :: PartialProduct where
  "no_updates_Product =
     \<lparr>PartialProduct.id = None, brandId = None, name = None, model = None,
      serialNumber = None, category = None, purchaseDate = None, warrantyExpiration = None,
      receiptUrl = None, photoUrls = None, notes = None, hasExtension = None,
      extendedExpirationDate = None, insuranceProvider = None, agentName = None,
      policyNumber = None, extensionCost = None\<rparr>"

definition no_updates_SupportRequest :: PartialSupportRequest where
  "no_updates_SupportRequest =
     \<lparr>PartialSupportRequest.id = None, productId = None, issueDescription = None,
      category = None, severity = None, status = None, emailSentAt = None, createdAt = None\<rparr>"

definition fixit :: InsertServiceProvider where
  "fixit =
     \<lparr>InsertServiceProvider.name = ''FixIt'', email = ''fixit@example.test'', phone = None, website = None,
      address = ''1 Main St'', city = ''Lisboa'', district = ''Lisboa'',
      supportedBrands = None\<rparr>"

definition fixit_review :: "int \<Rightarrow> InsertServiceProviderReview" where
  "fixit_review r = \<lparr>InsertServiceProviderReview.providerId = ''fixit'', rating = r, comment = None\<rparr>"

definition broken :: "string \<Rightarrow> InsertSupportRequest" where
  "broken productKey =
     \<lparr>InsertSupportRequest.productId = productKey, issueDescription = ''does not start'',
      category = ''malfunction'', severity = ''high''\<rparr>"

definition praise :: "string \<Rightarrow> InsertReview" where
  "praise productKey =
     \<lparr>InsertReview.productId = productKey, rating = 5, title = None, content = None, pros = None,
      cons = None, recommend = None\<rparr>"

definition acme_cover :: WarrantyExtension where
  \<comment> \<open>the extension of the spec's scenario, to 2027-01-15, no cost given\<close>
  "acme_cover =
     \<lparr>WarrantyExtension.extendedExpirationDate = TimeValue 1799971200000,
      insuranceProvider = ''Acme Cover'', agentName = ''Ana'', policyNumber = ''PN-1'',
      extensionCost = None\<rparr>"

definition widget_store :: MemStorage where
  \<comment> \<open>a store in UTC holding the Widget bought on 2023-01-15\<close>
  "widget_store = snd (createProduct utc (new_MemStorage []) ''p1'' (widget 1673740800000))"

definition fixit_store :: "(string \<times> int) list \<Rightarrow> MemStorage" where
  \<comment> \<open>the provider FixIt after reviews with the given identifiers and ratings\<close>
  "fixit_store rs =
     fold (\<lambda>(newId, r) s. snd (createServiceProviderReview s newId 0 (fixit_review r))) rs
       (snd (createServiceProvider (new_MemStorage []) ''fixit'' 0 fixit))"

definition with_renamed_request :: "string \<Rightarrow> MemStorage \<Rightarrow> MemStorage" where
  \<comment> \<open>a support request for the product is created under the key \<open>r1\<close>, and then
      \<^verbatim>\<open>updateSupportRequest("r1", { id: "zzz" })\<close>\<close>
  "with_renamed_request productKey s =
     snd (updateSupportRequest (snd (createSupportRequest s ''r1'' 0 0 (broken productKey)))
            ''r1'' (no_updates_SupportRequest\<lparr>PartialSupportRequest.id := Some ''zzz''\<rparr>))"

section \<open>Warranty status\<close>

lemma Math_ceil_days_negative:
  "Math_ceil (of_int x / of_int (1000 * 60 * 60 * 24)) < 0 \<longleftrightarrow> x + 86400000 \<le> 0"
proof -
  have "Math_ceil (of_int x / of_int (1000 * 60 * 60 * 24)) < 0
          \<longleftrightarrow> (of_int x :: rat) / 86400000 \<le> - 1"
    by (simp add: Math_ceil_def ceiling_less_iff)
  also have "\<dots> \<longleftrightarrow> (of_int x :: rat) \<le> - 86400000"
    by (simp add: pos_divide_le_eq)
  also have "\<dots> \<longleftrightarrow> (of_int x :: rat) \<le> of_int (- 86400000)"
    by simp
  also have "\<dots> \<longleftrightarrow> x \<le> - 86400000"
    by (simp only: of_int_le_iff)
  finally show ?thesis by auto
qed

text \<open>
  C3, as the spec words it: a warranty is expired exactly when its expiration lies before
  the current time.  One millisecond after the expiration the quotient is a tiny negative
  number, its ceiling is zero, and the status is still valid.
\<close>

theorem expired_iff_before_now_counterexample:
  "\<not> (isExpired (daysRemaining (TimeValue 0) 1) \<longleftrightarrow> (0::int) < 1)"
  using Math_ceil_days_negative [of "0 - 1"]
  by (simp add: isExpired_def daysRemaining_def)

text \<open>
  C3, amended: the status is expired exactly when the expiration lies at least one whole
  day (86400000 ms) before the current time; the same holds for the export route's
  status; the number of days put on the page is \<open>max daysRemaining 0\<close> and so is never
  negative, while the signed value decides the status.  An Invalid Date is never expired.
\<close>

theorem expired_iff_full_day_past:
  "(isExpired (daysRemaining (TimeValue w) now) \<longleftrightarrow> w + 86400000 \<le> now)
   \<and> (warrantyStatus (daysRemaining (TimeValue w) now) = Expirada \<longleftrightarrow> w + 86400000 \<le> now)
   \<and> (\<exists>n. daysRemaining (TimeValue w) now = Some n
          \<and> daysDisplayed (daysRemaining (TimeValue w) now) = Some (max n 0)
          \<and> 0 \<le> max n 0)
   \<and> \<not> isExpired (daysRemaining InvalidDate now)
   \<and> daysDisplayed (daysRemaining InvalidDate now) = None"
  using Math_ceil_days_negative [of "w - now"]
  by (auto simp add: isExpired_def daysRemaining_def daysDisplayed_def warrantyStatus_def)

text \<open>
  A warranty that ended exactly one day ago is expired and shows 0 days; one that ended
  a millisecond less than a day ago is not expired.  In the spec's scenario (expiration
  2026-01-15, current time 2025-06-01) 228 days remain.
\<close>

theorem expired_iff_full_day_past_witness:
  "isExpired (daysRemaining (TimeValue 0) 86400000)
   \<and> \<not> isExpired (daysRemaining (TimeValue 0) 86399999)
   \<and> daysDisplayed (daysRemaining (TimeValue 0) 86400000) = Some 0
   \<and> daysRemaining (TimeValue 1768435200000) 1748736000000 = Some 228
   \<and> \<not> isExpired (daysRemaining (TimeValue 1768435200000) 1748736000000)"
proof -
  have c: "daysRemaining (TimeValue 1768435200000) 1748736000000 = Some 228"
    by code_simp
  have e: "\<not> isExpired (daysRemaining (TimeValue 1768435200000) 1748736000000)"
    using expired_iff_full_day_past [of 1768435200000 1748736000000] by simp
  have a: "isExpired (daysRemaining (TimeValue 0) 86400000)"
    using expired_iff_full_day_past [of 0 86400000] by simp
  have b: "\<not> isExpired (daysRemaining (TimeValue 0) 86399999)"
    using expired_iff_full_day_past [of 0 86399999] by simp
  obtain n where n: "daysRemaining (TimeValue 0) 86400000 = Some n"
    and d: "daysDisplayed (daysRemaining (TimeValue 0) 86400000) = Some (max n 0)"
    using expired_iff_full_day_past [of 0 86400000] by blast
  from a n have "n < 0" by (simp add: isExpired_def)
  with d have "daysDisplayed (daysRemaining (TimeValue 0) 86400000) = Some 0" by simp
  with a b c e show ?thesis by simp
qed

section \<open>The calendar\<close>

lemma int_div_succ:
  fixes x n :: int
  assumes "0 < n"
  shows "(x + 1) div n = x div n + (if (x + 1) mod n = 0 then 1 else 0)"
proof -
  define q r where "q = x div n" and "r = x mod n"
  have x: "x = n * q + r" and r: "0 \<le> r" "r < n"
    using assms by (simp_all add: q_def r_def)
  show ?thesis
  proof (cases "r = n - 1")
    case True
    then have "x + 1 = n * (q + 1) + 0" using x by (simp add: algebra_simps)
    from int_div_pos_eq [OF this] int_mod_pos_eq [OF this] assms
    show ?thesis by (simp add: q_def)
  next
    case False
    then have b: "0 \<le> r + 1" "r + 1 < n" using r by auto
    have "x + 1 = n * q + (r + 1)" using x by simp
    from int_div_pos_eq [OF this b] int_mod_pos_eq [OF this b] r
    show ?thesis by (simp add: q_def)
  qed
qed

lemma mod_shift: "(y - n * k) mod n = y mod n" for y :: int
  using mod_mult_self2 [of y n "- k"] by simp

lemma div_4_succ: "(y - 1968) div 4 = (y - 1969) div 4 + (if y mod 4 = 0 then 1 else 0)" for y :: int
  using int_div_succ [of 4 "y - 1969"] mod_shift [of y 4 492] by simp

lemma div_100_succ: "(y - 1900) div 100 = (y - 1901) div 100 + (if y mod 100 = 0 then 1 else 0)" for y :: int
  using int_div_succ [of 100 "y - 1901"] mod_shift [of y 100 19] by simp

lemma div_400_succ: "(y - 1600) div 400 = (y - 1601) div 400 + (if y mod 400 = 0 then 1 else 0)" for y :: int
  using int_div_succ [of 400 "y - 1601"] mod_shift [of y 400 4] by simp

lemma mod_100_mod_4: "y mod 100 = 0 \<Longrightarrow> y mod 4 = 0" for y :: int
  using mod_mod_cancel [of 4 100 y] by simp

lemma mod_400_mod_100: "y mod 400 = 0 \<Longrightarrow> y mod 100 = 0" for y :: int
  using mod_mod_cancel [of 100 400 y] by simp

lemma DayFromYear_Suc: "DayFromYear (y + 1) = DayFromYear y + DaysInYear y"
proof -
  have e: "y + 1 - 1969 = y - 1968" "y + 1 - 1901 = y - 1900" "y + 1 - 1601 = y - 1600"
    by simp_all
  show ?thesis
    unfolding DayFromYear_def DaysInYear_def e div_4_succ div_100_succ div_400_succ
    using mod_100_mod_4 [of y] mod_400_mod_100 [of y] by auto
qed

lemma DaysInYear_bounds: "365 \<le> DaysInYear y" "DaysInYear y \<le> 366"
  unfolding DaysInYear_def by auto




lemma YearFromDay_bounds:
  "DayFromYear (YearFromDay D) \<le> D \<and> D < DayFromYear (YearFromDay D + 1)"
proof -
  define N where "N = D + 134774"
  define a r where "a = N div 146097" and "r = N mod 146097"
  define q where "q = r div 36524"
  define b where "b = min 3 q"
  define r2 where "r2 = r - 36524 * b"
  define c r3 where "c = r2 div 1461" and "r3 = r2 mod 1461"
  define q' where "q' = r3 div 365"
  define d where "d = min 3 q'"
  define Y where "Y = 1601 + 400 * a + 100 * b + 4 * c + d"
  have Y: "YearFromDay D = Y"
    unfolding YearFromDay_def Let_def Y_def d_def q'_def r3_def c_def r2_def b_def
      q_def r_def a_def N_def ..
  have N: "N = 146097 * a + r" and r: "0 \<le> r" "r < 146097"
    by (simp_all add: a_def r_def)
  have q: "36524 * q \<le> r" "r < 36524 * q + 36524" "0 \<le> q"
    using r div_mult_mod_eq [of r 36524] pos_mod_bound [of 36524 r] pos_mod_sign [of 36524 r]
    by (simp_all add: q_def pos_imp_zdiv_nonneg_iff)
  have b: "0 \<le> b" "b \<le> 3" "36524 * b \<le> r" "b < 3 \<Longrightarrow> r < 36524 * b + 36524"
    using q by (auto simp: b_def min_def)
  have r2: "0 \<le> r2" "r2 \<le> 36524" "b < 3 \<Longrightarrow> r2 < 36524"
    using b r by (cases "b < 3"; simp add: r2_def)+
  have r3: "r2 = 1461 * c + r3" "0 \<le> r3" "r3 < 1461"
    by (simp_all add: c_def r3_def)
  have c: "0 \<le> c" "c \<le> 24"
    using r2 r3 by linarith+
  have q': "365 * q' \<le> r3" "r3 < 365 * q' + 365" "0 \<le> q'"
    using r3 div_mult_mod_eq [of r3 365] pos_mod_bound [of 365 r3] pos_mod_sign [of 365 r3]
    by (simp_all add: q'_def pos_imp_zdiv_nonneg_iff)
  have d: "0 \<le> d" "d \<le> 3" "365 * d \<le> r3" "d < 3 \<Longrightarrow> r3 < 365 * d + 365"
    using q' by (auto simp: d_def min_def)
  have D: "D = 146097 * a + 36524 * b + 1461 * c + r3 - 134774"
    using N r3 by (simp add: N_def r2_def)
  have e4: "Y - 1969 = 4 * (100 * a + 25 * b + c - 92) + d"
    by (simp add: Y_def)
  have e100: "Y - 1901 = 100 * (4 * a + b - 3) + (4 * c + d)"
    by (simp add: Y_def)
  have e400: "Y - 1601 = 400 * a + (100 * b + 4 * c + d)"
    by (simp add: Y_def)
  have d4: "(Y - 1969) div 4 = 100 * a + 25 * b + c - 92"
    using int_div_pos_eq [OF e4] d by simp
  have d100: "(Y - 1901) div 100 = 4 * a + b - 3"
    using int_div_pos_eq [OF e100] c d by simp
  have d400: "(Y - 1601) div 400 = a"
    using int_div_pos_eq [OF e400] b c d by simp
  have DY: "DayFromYear Y = 146097 * a + 36524 * b + 1461 * c + 365 * d - 134774"
    unfolding DayFromYear_def d4 d100 d400 by (simp add: Y_def)
  have lower: "DayFromYear Y \<le> D"
    using DY D d by simp
  have upper: "D - DayFromYear Y < DaysInYear Y"
  proof (cases "d < 3")
    case True
    then show ?thesis using DY D d DaysInYear_bounds [of Y] by simp
  next
    case False
    then have d3: "d = 3" using d by simp
    have m4: "Y mod 4 = 0"
    proof -
      have "Y = 4 * (401 + 100 * a + 25 * b + c) + 0" by (simp add: Y_def d3)
      from int_mod_pos_eq [OF this] show ?thesis by simp
    qed
    show ?thesis
    proof (cases "c = 24")
      case False
      then have c23: "c \<le> 23" using c by simp
      have "Y = 100 * (16 + 4 * a + b) + (4 * c + 4)" by (simp add: Y_def d3)
      from int_mod_pos_eq [OF this] c c23 have "Y mod 100 = 4 * c + 4" by simp
      then have "Y mod 100 \<noteq> 0" using c by simp
      then have "DaysInYear Y = 366" using m4 by (simp add: DaysInYear_def)
      then show ?thesis using DY D r3 d3 by simp
    next
      case True
      have "Y = 100 * (17 + 4 * a + b) + 0" by (simp add: Y_def d3 True)
      from int_mod_pos_eq [OF this] have m100: "Y mod 100 = 0" by simp
      show ?thesis
      proof (cases "b = 3")
        case True
        have "Y = 400 * (a + 5) + 0" by (simp add: Y_def d3 \<open>c = 24\<close> True)
        from int_mod_pos_eq [OF this] have "Y mod 400 = 0" by simp
        then have "DaysInYear Y = 366" using m4 m100 by (simp add: DaysInYear_def)
        then show ?thesis using DY D r3 d3 by simp
      next
        case False
        then have b3: "b < 3" using b by simp
        have "r3 < 1460" using r2(3) [OF b3] r3 \<open>c = 24\<close> by simp
        then show ?thesis using DY D d3 DaysInYear_bounds [of Y] by simp
      qed
    qed
  qed
  show ?thesis
    unfolding Y using lower upper DayFromYear_Suc [of Y] by simp
qed




lemma leap_flag: "DaysInYear y = 365 + (if DaysInYear y = 366 then 1 else 0)"
  using DaysInYear_bounds [of y] by (simp add: DaysInYear_def)

lemma DayWithinYear_bounds:
  "0 \<le> DayWithinYear t" "DayWithinYear t < 365 + InLeapYear t"
proof -
  have b: "DayFromYear (YearFromTime t) \<le> Day t"
    "Day t < DayFromYear (YearFromTime t) + DaysInYear (YearFromTime t)"
    using YearFromDay_bounds [of "Day t"] by (simp_all add: YearFromTime_def DayFromYear_Suc)
  show "0 \<le> DayWithinYear t" using b by (simp add: DayWithinYear_def)
  show "DayWithinYear t < 365 + InLeapYear t"
    using b(2) leap_flag [of "YearFromTime t"]
    unfolding DayWithinYear_def InLeapYear_def by linarith
qed

lemma InLeapYear_cases: "InLeapYear t = 0 \<or> InLeapYear t = 1"
  by (simp add: InLeapYear_def)

lemma MonthStart_numeral:
  "MonthStart 0 l = 0" "MonthStart 1 l = 31" "MonthStart 2 l = 59 + l" "MonthStart 3 l = 90 + l"
  "MonthStart 4 l = 120 + l" "MonthStart 5 l = 151 + l" "MonthStart 6 l = 181 + l"
  "MonthStart 7 l = 212 + l" "MonthStart 8 l = 243 + l" "MonthStart 9 l = 273 + l"
  "MonthStart 10 l = 304 + l" "MonthStart 11 l = 334 + l"
  by (simp_all add: MonthStart_def)

lemma DaysInMonth_numeral:
  "DaysInMonth 0 l = 31" "DaysInMonth 1 l = 28 + l" "DaysInMonth 2 l = 31" "DaysInMonth 3 l = 30"
  "DaysInMonth 4 l = 31" "DaysInMonth 5 l = 30" "DaysInMonth 6 l = 31" "DaysInMonth 7 l = 31"
  "DaysInMonth 8 l = 30" "DaysInMonth 9 l = 31" "DaysInMonth 10 l = 30" "DaysInMonth 11 l = 31"
  by (simp_all add: DaysInMonth_def)

lemma month_cases:
  fixes m :: int
  assumes "0 \<le> m" "m \<le> 11"
  obtains "m = 0" | "m = 1" | "m = 2" | "m = 3" | "m = 4" | "m = 5" | "m = 6" | "m = 7"
    | "m = 8" | "m = 9" | "m = 10" | "m = 11"
proof -
  have "m < 4 \<or> (4 \<le> m \<and> m < 8) \<or> 8 \<le> m" by linarith
  then show thesis
  proof (elim disjE)
    assume "m < 4"
    with assms have "m = 0 \<or> m = 1 \<or> m = 2 \<or> m = 3" by linarith
    with that show thesis by blast
  next
    assume "4 \<le> m \<and> m < 8"
    then have "m = 4 \<or> m = 5 \<or> m = 6 \<or> m = 7" by linarith
    with that show thesis by blast
  next
    assume "8 \<le> m"
    with assms have "m = 8 \<or> m = 9 \<or> m = 10 \<or> m = 11" by linarith
    with that show thesis by blast
  qed
qed

text \<open>The month table read forwards: the month and date of a day within the year.\<close>

lemma month_of_day:
  assumes l: "0 \<le> l" "l \<le> 1" and d: "MonthStart m l \<le> d" "d < MonthStart m l + DaysInMonth m l"
    and m: "0 \<le> m" "m \<le> 11"
  shows "(if d < 31 then 0 else if d < 59 + l then 1 else if d < 90 + l then 2
      else if d < 120 + l then 3 else if d < 151 + l then 4 else if d < 181 + l then 5
      else if d < 212 + l then 6 else if d < 243 + l then 7 else if d < 273 + l then 8
      else if d < 304 + l then 9 else if d < 334 + l then 10 else 11) = m"
  using m
proof (cases m rule: month_cases)
  case 1
  with l d show ?thesis by (simp add: MonthStart_numeral DaysInMonth_numeral)
next
  case 2
  with l d show ?thesis by (simp add: MonthStart_numeral DaysInMonth_numeral)
next
  case 3
  with l d show ?thesis by (simp add: MonthStart_numeral DaysInMonth_numeral)
next
  case 4
  with l d show ?thesis by (simp add: MonthStart_numeral DaysInMonth_numeral)
next
  case 5
  with l d show ?thesis by (simp add: MonthStart_numeral DaysInMonth_numeral)
next
  case 6
  with l d show ?thesis by (simp add: MonthStart_numeral DaysInMonth_numeral)
next
  case 7
  with l d show ?thesis by (simp add: MonthStart_numeral DaysInMonth_numeral)
next
  case 8
  with l d show ?thesis by (simp add: MonthStart_numeral DaysInMonth_numeral)
next
  case 9
  with l d show ?thesis by (simp add: MonthStart_numeral DaysInMonth_numeral)
next
  case 10
  with l d show ?thesis by (simp add: MonthStart_numeral DaysInMonth_numeral)
next
  case 11
  with l d show ?thesis by (simp add: MonthStart_numeral DaysInMonth_numeral)
next
  case 12
  with l d show ?thesis by (simp add: MonthStart_numeral DaysInMonth_numeral)
qed

text \<open>The month table read backwards: every day of a year lies in a month.\<close>

lemma day_in_month:
  assumes l: "0 \<le> l" "l \<le> 1" and d: "0 \<le> d" "d < 365 + l"
  obtains m where "0 \<le> m" "m \<le> 11" "MonthStart m l \<le> d" "d < MonthStart m l + DaysInMonth m l"
proof -
  consider "d < 31" | "31 \<le> d \<and> d < 59 + l" | "59 + l \<le> d \<and> d < 90 + l"
    | "90 + l \<le> d \<and> d < 120 + l"
    | "120 + l \<le> d \<and> d < 151 + l"
    | "151 + l \<le> d \<and> d < 181 + l"
    | "181 + l \<le> d \<and> d < 212 + l"
    | "212 + l \<le> d \<and> d < 243 + l"
    | "243 + l \<le> d \<and> d < 273 + l"
    | "273 + l \<le> d \<and> d < 304 + l"
    | "304 + l \<le> d \<and> d < 334 + l"
    | "334 + l \<le> d \<and> d < 365 + l"
    using d by linarith
  then show ?thesis
  proof cases
    case 1
    with l d that [of 0] show ?thesis by (simp add: MonthStart_numeral DaysInMonth_numeral)
  next
    case 2
    with l d that [of 1] show ?thesis by (simp add: MonthStart_numeral DaysInMonth_numeral)
  next
    case 3
    with l d that [of 2] show ?thesis by (simp add: MonthStart_numeral DaysInMonth_numeral)
  next
    case 4
    with l d that [of 3] show ?thesis by (simp add: MonthStart_numeral DaysInMonth_numeral)
  next
    case 5
    with l d that [of 4] show ?thesis by (simp add: MonthStart_numeral DaysInMonth_numeral)
  next
    case 6
    with l d that [of 5] show ?thesis by (simp add: MonthStart_numeral DaysInMonth_numeral)
  next
    case 7
    with l d that [of 6] show ?thesis by (simp add: MonthStart_numeral DaysInMonth_numeral)
  next
    case 8
    with l d that [of 7] show ?thesis by (simp add: MonthStart_numeral DaysInMonth_numeral)
  next
    case 9
    with l d that [of 8] show ?thesis by (simp add: MonthStart_numeral DaysInMonth_numeral)
  next
    case 10
    with l d that [of 9] show ?thesis by (simp add: MonthStart_numeral DaysInMonth_numeral)
  next
    case 11
    with l d that [of 10] show ?thesis by (simp add: MonthStart_numeral DaysInMonth_numeral)
  next
    case 12
    with l d that [of 11] show ?thesis by (simp add: MonthStart_numeral DaysInMonth_numeral)
  qed
qed

lemma InLeapYear_bounds: "0 \<le> InLeapYear t" "InLeapYear t \<le> 1"
  by (simp_all add: InLeapYear_def)

lemma fields_of_time:
  shows "0 \<le> MonthFromTime t" and "MonthFromTime t \<le> 11"
    and "1 \<le> DateFromTime t"
    and "DateFromTime t \<le> DaysInMonth (MonthFromTime t) (InLeapYear t)"
proof -
  obtain m where m: "0 \<le> m" "m \<le> 11"
    and d: "MonthStart m (InLeapYear t) \<le> DayWithinYear t"
      "DayWithinYear t < MonthStart m (InLeapYear t) + DaysInMonth m (InLeapYear t)"
    using day_in_month [OF InLeapYear_bounds DayWithinYear_bounds] by blast
  have mo: "MonthFromTime t = m"
    unfolding MonthFromTime_def Let_def
    by (rule month_of_day [OF InLeapYear_bounds d m])
  show "0 \<le> MonthFromTime t" "MonthFromTime t \<le> 11" using m mo by simp_all
  show "1 \<le> DateFromTime t" using d by (simp add: DateFromTime_def mo)
  show "DateFromTime t \<le> DaysInMonth (MonthFromTime t) (InLeapYear t)"
    using d by (simp add: DateFromTime_def mo)
qed





lemma MonthStart_leap_flag:
  assumes "0 \<le> l" "l \<le> 1" "0 \<le> l'" "l' \<le> 1"
  shows "MonthStart m l' \<le> MonthStart m l + 1" and "MonthStart m l \<le> MonthStart m l' + 1"
  using assms by (simp_all add: MonthStart_def)

lemma plus_three_years_shift:
  fixes t :: int
  defines "x \<equiv> withFullYear t (YearFromTime t + 3)"
  shows "t + 1094 * msPerDay \<le> x" and "x \<le> t + 1099 * msPerDay"
proof -
  define y m dt where "y = YearFromTime t" and "m = MonthFromTime t" and "dt = DateFromTime t"
  define l l' :: int where "l = InLeapYear t" and "l' = (if DaysInYear (y + 3) = 366 then 1 else 0)"
  note f = fields_of_time [of t, folded m_def dt_def]
  have l: "0 \<le> l" "l \<le> 1" "0 \<le> l'" "l' \<le> 1"
    using InLeapYear_bounds [of t] by (simp_all add: l_def l'_def)
  have mm: "m div 12 = 0" "m mod 12 = m" using f(1,2) by simp_all
  have md: "MakeDay (y + 3) m dt = DayFromYear (y + 3) + MonthStart m l' + dt - 1"
    by (simp add: MakeDay_def Let_def mm l'_def)
  have day: "Day t = DayFromYear y + MonthStart m l + dt - 1"
    by (simp add: dt_def DateFromTime_def DayWithinYear_def y_def m_def l_def)
  have y3: "DayFromYear (y + 3) = DayFromYear y + DaysInYear y + DaysInYear (y + 1) + DaysInYear (y + 2)"
    using DayFromYear_Suc [of y] DayFromYear_Suc [of "y + 1"] DayFromYear_Suc [of "y + 2"]
    by (simp add: add.assoc)
  have delta: "Day t + 1094 \<le> MakeDay (y + 3) m dt" "MakeDay (y + 3) m dt \<le> Day t + 1099"
    using MonthStart_leap_flag [OF l, of m] DaysInYear_bounds [of y]
      DaysInYear_bounds [of "y + 1"] DaysInYear_bounds [of "y + 2"]
    unfolding md day y3 by linarith+
  have t: "t = Day t * msPerDay + TimeWithinDay t"
    by (simp add: Day_def TimeWithinDay_def)
  have x: "x = MakeDay (y + 3) m dt * msPerDay + TimeWithinDay t"
    by (simp add: x_def withFullYear_def MakeDate_def y_def m_def dt_def)
  have "t + 1094 * msPerDay = (Day t + 1094) * msPerDay + TimeWithinDay t"
    using t by (simp add: algebra_simps)
  also have "\<dots> \<le> x"
    unfolding x using delta(1) by (simp add: msPerDay_def)
  finally show "t + 1094 * msPerDay \<le> x" .
  have "x \<le> (Day t + 1099) * msPerDay + TimeWithinDay t"
    unfolding x using delta(2) by (simp add: msPerDay_def)
  also have "\<dots> = t + 1099 * msPerDay"
    using t by (simp add: algebra_simps)
  finally show "x \<le> t + 1099 * msPerDay" .
qed

lemma defaultExpiration_TimeValue:
  "defaultExpiration zone (TimeValue p) =
     TimeClip (UTC zone (withFullYear (LocalTime zone p) (YearFromTime (LocalTime zone p) + 3)))"
  by (simp add: defaultExpiration_def setFullYear_def getFullYear_def Let_def)

lemma defaultExpiration_InvalidDate: "defaultExpiration zone InvalidDate = InvalidDate"
  by (simp add: defaultExpiration_def setFullYear_def getFullYear_def)

lemma not_skipped_fixed_offset: "not_skipped (fixed_offset tza) t"
  by (simp add: not_skipped_def LocalTime_def UTC_def fixed_offset_def)

text \<open>
  In a zone without daylight saving every purchase date up to 1099 days before the end
  of the range of time values has a valid expiration.
\<close>

lemma defaultExpiration_valid:
  assumes "- 8640000000000000 \<le> p" "p + 1099 * msPerDay \<le> 8640000000000000"
  obtains w where "defaultExpiration (fixed_offset tza) (TimeValue p) = TimeValue w"
proof -
  define z where "z = fixed_offset tza"
  define x where "x = withFullYear (LocalTime z p) (YearFromTime (LocalTime z p) + 3)"
  have "LocalTime z p + 1094 * msPerDay \<le> x" "x \<le> LocalTime z p + 1099 * msPerDay"
    unfolding x_def by (rule plus_three_years_shift)+
  then have "\<bar>UTC z x\<bar> \<le> 8640000000000000"
    using assms by (simp add: UTC_def LocalTime_def msPerDay_def z_def fixed_offset_def)
  then have "defaultExpiration z (TimeValue p) = TimeValue (UTC z x)"
    unfolding defaultExpiration_TimeValue x_def [symmetric] by (simp add: TimeClip_def)
  then show thesis unfolding z_def by (rule that)
qed


section \<open>Maps and arrays\<close>

lemma Map_get_set: "Map_get (Map_set m k v) k' = (if k' = k then Some v else Map_get m k')"
  by (simp add: Map_get_def Map_set_def update_conv')

lemma Map_get_delete: "Map_get (Map_delete m k) k' = (if k' = k then None else Map_get m k')"
  by (simp add: Map_get_def Map_delete_def delete_conv')

lemma Map_set_mem: "(k, v) \<in> set (Map_set m k v)"
  unfolding Map_set_def by (induction m) auto

lemma Map_set_subset: "set (Map_set m k v) \<subseteq> insert (k, v) (set m)"
  unfolding Map_set_def by (induction m) auto

lemma list_all_Map_set:
  "list_all P (Map_values m) \<Longrightarrow> P v \<Longrightarrow> list_all P (Map_values (Map_set m k v))"
  using Map_set_subset [of m k v] by (fastforce simp: list_all_iff Map_values_def)

lemma list_all_Map_delete:
  "list_all P (Map_values m) \<Longrightarrow> list_all P (Map_values (Map_delete m k))"
  by (auto simp: list_all_iff Map_values_def Map_delete_def AList.delete_eq)

lemma list_all_Map_get:
  "list_all P (Map_values m) \<Longrightarrow> Map_get m k = Some v \<Longrightarrow> P v"
  by (auto simp: list_all_iff Map_values_def Map_get_def dest!: map_of_SomeD)

lemma list_all_entries_Map_set:
  "list_all P m \<Longrightarrow> P (k, v) \<Longrightarrow> list_all P (Map_set m k v)"
  using Map_set_subset [of m k v] by (fastforce simp: list_all_iff)

lemma list_all_entries_Map_get:
  "list_all P m \<Longrightarrow> Map_get m k = Some v \<Longrightarrow> P (k, v)"
  by (auto simp: list_all_iff Map_get_def dest!: map_of_SomeD)

lemma set_fold_Map_delete:
  "set (fold (\<lambda>r m. Map_delete m (f r)) rs m) = {x \<in> set m. fst x \<notin> f ` set rs}"
  by (induction rs arbitrary: m) (auto simp: Map_delete_def AList.delete_eq)

lemma list_all_entries_fold_delete:
  "list_all P m \<Longrightarrow> list_all P (fold (\<lambda>r m. Map_delete m (f r)) rs m)"
  by (simp add: list_all_iff set_fold_Map_delete)

lemma distinct_map_update:
  fixes m :: "(string \<times> 'v) list"
  assumes "distinct (map h m)" "\<forall>x \<in> set m. h x \<noteq> h (k, v)"
  shows "distinct (map h (AList.update k v m))"
  using assms
proof (induction m)
  case Nil
  then show ?case by simp
next
  case (Cons x m)
  have "set (AList.update k v m) \<subseteq> insert (k, v) (set m)"
    using Map_set_subset [of m k v] by (simp add: Map_set_def)
  with Cons show ?case by (cases x) auto
qed

lemma length_insert_sorted: "length (insert_sorted c x ys) = Suc (length ys)"
  by (induction ys) simp_all

lemma length_Array_sort: "length (Array_sort c xs) = length xs"
  by (induction xs) (simp_all add: Array_sort_def length_insert_sorted)

lemma Array_sort_Nil_iff: "Array_sort c xs = [] \<longleftrightarrow> xs = []"
  using length_Array_sort [of c xs] by (metis length_0_conv)

lemma set_insert_sorted: "set (insert_sorted c x ys) = insert x (set ys)"
  by (induction ys) auto

lemma set_Array_sort: "set (Array_sort c xs) = set xs"
  by (induction xs) (simp_all add: Array_sort_def set_insert_sorted)

lemma sum_list_insert_sorted:
  "sum_list (map f (insert_sorted c x ys)) = f x + sum_list (map f ys)" for f :: "'a \<Rightarrow> int"
  by (induction ys) simp_all

lemma sum_list_Array_sort:
  "sum_list (map f (Array_sort c xs)) = sum_list (map f xs)" for f :: "'a \<Rightarrow> int"
  by (induction xs) (simp_all add: Array_sort_def sum_list_insert_sorted)

lemma fold_plus: "fold (\<lambda>r acc. acc + f r) rs a = a + sum_list (map f rs)" for a :: int
  by (induction rs arbitrary: a) simp_all

section \<open>Creating a product\<close>

lemma createProduct_result:
  "Product.warrantyExpiration (fst (createProduct zone s newId ins))
     = defaultExpiration zone (InsertProduct.purchaseDate ins)"
  "Product.id (fst (createProduct zone s newId ins)) = newId"
  "InsertProduct.purchaseDate (fst (createProduct zone s newId ins)) = InsertProduct.purchaseDate ins"
  "InsertProduct.hasExtension (fst (createProduct zone s newId ins)) = InsertProduct.hasExtension ins"
  "InsertProduct.extendedExpirationDate (fst (createProduct zone s newId ins))
     = InsertProduct.extendedExpirationDate ins"
  "products (snd (createProduct zone s newId ins))
     = Map_set (products s) newId (fst (createProduct zone s newId ins))"
  by (simp_all add: createProduct_def Let_def InsertProduct.defs Product.defs)




text \<open>
  A purchase in Lisbon at 01:00 on 2023-03-29: three years on, 01:00 on 2026-03-29 is
  the hour that the change to summer time skips; the expiration is 01:00 UTC, which the
  zone shows as 02:00.
\<close>

lemma createProduct_skipped_hour:
  "Product.warrantyExpiration
       (fst (createProduct western_europe (new_MemStorage []) ''p1'' (widget 1680048000000)))
     = TimeValue 1774746000000
   \<and> \<not> not_skipped western_europe
         (withFullYear (LocalTime western_europe 1680048000000)
            (YearFromTime (LocalTime western_europe 1680048000000) + 3))
   \<and> TimeWithinDay (LocalTime western_europe 1680048000000) = 3600000
   \<and> TimeWithinDay (LocalTime western_europe 1774746000000) = 7200000
   \<and> getDate western_europe (TimeValue 1774746000000) = Some 29"
  by code_simp

section \<open>Extending a warranty\<close>

text \<open>
  C2: for an existing product, whatever its state, \<^verbatim>\<open>addWarrantyExtension\<close> returns and
  stores a product whose warranty expiration is the extension's date, whose extension
  flag is true, whose insurance provider, agent name and policy number are the
  extension's, and whose extension cost is the given one, or 0 when none is given;
  the product's other fields stay.
\<close>

theorem addWarrantyExtension_overrides:
  assumes "getProduct s productKey = Some product"
  shows "\<exists>updated.
      fst (addWarrantyExtension s productKey extension) = Some updated
    \<and> getProduct (snd (addWarrantyExtension s productKey extension)) productKey = Some updated
    \<and> Product.warrantyExpiration updated = WarrantyExtension.extendedExpirationDate extension
    \<and> InsertProduct.hasExtension updated = Some True
    \<and> InsertProduct.extendedExpirationDate updated
        = Some (WarrantyExtension.extendedExpirationDate extension)
    \<and> InsertProduct.insuranceProvider updated = Some (WarrantyExtension.insuranceProvider extension)
    \<and> InsertProduct.agentName updated = Some (WarrantyExtension.agentName extension)
    \<and> InsertProduct.policyNumber updated = Some (WarrantyExtension.policyNumber extension)
    \<and> InsertProduct.extensionCost updated
        = Some (case WarrantyExtension.extensionCost extension of None \<Rightarrow> 0 | Some cost \<Rightarrow> cost)
    \<and> Product.id updated = Product.id product
    \<and> InsertProduct.purchaseDate updated = InsertProduct.purchaseDate product
    \<and> InsertProduct.brandId updated = InsertProduct.brandId product
    \<and> InsertProduct.name updated = InsertProduct.name product
    \<and> InsertProduct.model updated = InsertProduct.model product"
  using assms
  by (simp add: addWarrantyExtension_def getProduct_def Let_def Map_get_set split: option.split)

text \<open>
  The spec's scenario: the Widget is granted an extension to 2027-01-15 without a cost.
\<close>

theorem addWarrantyExtension_overrides_witness:
  "getProduct widget_store ''p1'' \<noteq> None
   \<and> (\<exists>updated. fst (addWarrantyExtension widget_store ''p1'' acme_cover) = Some updated
          \<and> getProduct (snd (addWarrantyExtension widget_store ''p1'' acme_cover)) ''p1''
              = Some updated
          \<and> Product.warrantyExpiration updated = TimeValue 1799971200000
          \<and> InsertProduct.hasExtension updated = Some True
          \<and> InsertProduct.extensionCost updated = Some 0)"
proof -
  have "getProduct widget_store ''p1'' \<noteq> None" by code_simp
  then obtain product where p: "getProduct widget_store ''p1'' = Some product" by blast
  from addWarrantyExtension_overrides [OF p, of acme_cover]
  show ?thesis using p by (auto simp: acme_cover_def)
qed

section \<open>The warranty invariant\<close>

lemma product_invariant_created:
  assumes "InsertProduct.hasExtension ins \<noteq> Some True"
  shows "product_invariant zone (fst (createProduct zone s newId ins))"
  using assms by (simp add: product_invariant_def createProduct_result)

lemma product_invariant_merged:
  assumes "product_invariant zone p"
    and "PartialProduct.purchaseDate u = None" "PartialProduct.warrantyExpiration u = None"
    and "PartialProduct.hasExtension u = None" "PartialProduct.extendedExpirationDate u = None"
  shows "product_invariant zone (merge_Product p u)"
  using assms by (simp add: product_invariant_def merge_Product_def spread_def)

lemma product_invariant_extended:
  "Map_get (products s) k = Some p
    \<Longrightarrow> product_invariant zone (the (fst (addWarrantyExtension s k e)))"
  by (simp add: addWarrantyExtension_def Let_def product_invariant_def)

lemma products_unchanged:
  "products (snd (createBrand s newId b)) = products s"
  "products (snd (createReview s newId now r)) = products s"
  "products (snd (createSupportRequest s newId now now' q)) = products s"
  "products (snd (updateSupportRequest s k uq)) = products s"
  "products (snd (createServiceProvider s newId now sp)) = products s"
  "products (snd (updateServiceProvider s k usp)) = products s"
  "products (snd (deleteServiceProvider s k)) = products s"
  "products (snd (createServiceProviderReview s newId now spr)) = products s"
  "products (snd (createNotification s newId now n)) = products s"
  "products (snd (markNotificationAsSent s k now)) = products s"
  "products (snd (toggleFavorite s newId now favType target)) = products s"
  "products (snd (saveClientProfile s newId now cp)) = products s"
  "products (snd (updateClientProfile s now ucp)) = products s"
  by (simp_all add: createBrand_def createReview_def createSupportRequest_def
      updateSupportRequest_def createServiceProvider_def updateServiceProvider_def
      deleteServiceProvider_def createServiceProviderReview_def createNotification_def
      markNotificationAsSent_def toggleFavorite_def saveClientProfile_def
      updateClientProfile_def Let_def split: option.split)

text \<open>
  C4, as the spec words it, fails: the store with the Widget satisfies the invariant;
  after \<^verbatim>\<open>updateProduct\<close> with a new purchase date alone (2020-01-01) it does not, the
  expiration still being 2026-01-15.
\<close>

theorem updateProduct_breaks_invariant_counterexample:
  "warranty_invariant utc widget_store
   \<and> \<not> warranty_invariant utc
         (perform utc widget_store
            (UpdateProduct ''p1''
               (no_updates_Product\<lparr>PartialProduct.purchaseDate := Some (TimeValue 1577836800000)\<rparr>)))"
  by code_simp

text \<open>
  C4, amended: every store operation preserves the warranty invariant (a stored product
  whose extension flag is not true expires three years after its purchase date, as
  \<^verbatim>\<open>createProduct\<close> computes it; one whose flag is true expires at its extended
  expiration date), provided that a \<^verbatim>\<open>createProduct\<close> is not given the extension flag
  and an \<^verbatim>\<open>updateProduct\<close> does not set \<^verbatim>\<open>purchaseDate\<close>, \<^verbatim>\<open>warrantyExpiration\<close>,
  \<^verbatim>\<open>hasExtension\<close> or \<^verbatim>\<open>extendedExpirationDate\<close>: \<^verbatim>\<open>updateProduct\<close> merges the
  update into the product and recomputes nothing.
\<close>

theorem warranty_invariant_preserved:
  assumes inv: "warranty_invariant zone s" and ok: "keeps_warranty_fields op"
  shows "warranty_invariant zone (perform zone s op)"
proof (cases op)
  case (CreateProduct newId ins)
  with ok have "InsertProduct.hasExtension ins \<noteq> Some True"
    by (simp add: keeps_warranty_fields_def)
  from product_invariant_created [OF this] inv show ?thesis
    by (simp add: CreateProduct warranty_invariant_def createProduct_result(6) list_all_Map_set)
next
  case (UpdateProduct k u)
  show ?thesis
  proof (cases "Map_get (products s) k")
    case None
    with inv show ?thesis by (simp add: UpdateProduct updateProduct_def)
  next
    case (Some p)
    from inv Some have "product_invariant zone p"
      unfolding warranty_invariant_def by (rule list_all_Map_get)
    with ok have "product_invariant zone (merge_Product p u)"
      by (intro product_invariant_merged) (simp_all add: keeps_warranty_fields_def UpdateProduct)
    with inv show ?thesis
      by (simp add: UpdateProduct updateProduct_def Some Let_def warranty_invariant_def
          list_all_Map_set)
  qed
next
  case (DeleteProduct k)
  with inv show ?thesis
    by (simp add: deleteProduct_def Let_def warranty_invariant_def list_all_Map_delete)
next
  case (AddWarrantyExtension k e)
  show ?thesis
  proof (cases "Map_get (products s) k")
    case None
    with inv show ?thesis by (simp add: AddWarrantyExtension addWarrantyExtension_def)
  next
    case (Some p)
    from product_invariant_extended [OF Some, of zone e] inv show ?thesis
      by (simp add: AddWarrantyExtension addWarrantyExtension_def Some Let_def
          warranty_invariant_def list_all_Map_set)
  qed
qed (use inv in \<open>simp_all add: warranty_invariant_def products_unchanged\<close>)

text \<open>
  Renaming the Widget keeps the invariant.
\<close>

theorem warranty_invariant_preserved_witness:
  "warranty_invariant utc widget_store
   \<and> keeps_warranty_fields
        (UpdateProduct ''p1'' (no_updates_Product\<lparr>PartialProduct.name := Some ''Gadget''\<rparr>))
   \<and> warranty_invariant utc
        (perform utc widget_store
           (UpdateProduct ''p1'' (no_updates_Product\<lparr>PartialProduct.name := Some ''Gadget''\<rparr>)))"
proof -
  have a: "warranty_invariant utc widget_store" by code_simp
  have b: "keeps_warranty_fields
        (UpdateProduct ''p1'' (no_updates_Product\<lparr>PartialProduct.name := Some ''Gadget''\<rparr>))"
    by (simp add: keeps_warranty_fields_def no_updates_Product_def)
  from warranty_invariant_preserved [OF a b] a b show ?thesis by simp
qed

section \<open>Service provider ratings\<close>

text \<open>\<^verbatim>\<open>Math.round\<close> gives an integer nearest to its argument.\<close>

lemma Math_round_nearest: "\<bar>of_int (Math_round x) - x\<bar> \<le> 1 / 2"
proof -
  have "of_int \<lfloor>x + 1 / 2\<rfloor> \<le> x + 1 / 2" "x + 1 / 2 < of_int \<lfloor>x + 1 / 2\<rfloor> + 1"
    by linarith+
  then show ?thesis unfolding Math_round_def by linarith
qed

lemma getAverageRating_mean:
  "getAverageRating s k =
     (let ratings = map InsertServiceProviderReview.rating
            (filter (\<lambda>r. InsertServiceProviderReview.providerId r = k)
               (Map_values (serviceProviderReviews s)))
      in if ratings = [] then 0 else of_int (sum_list ratings) / of_nat (length ratings))"
  by (simp add: getAverageRating_def getServiceProviderReviews_def Let_def fold_plus
      sum_list_Array_sort length_Array_sort Array_sort_Nil_iff)

text \<open>
  C5: after \<^verbatim>\<open>createServiceProviderReview\<close> for an existing provider, the ratings of
  all reviews now stored for that provider are not empty, and the provider's persisted
  \<^verbatim>\<open>averageRating\<close> is \<^verbatim>\<open>Math.round\<close> of their mean: it is recomputed from the full set
  of stored reviews.
\<close>

theorem createServiceProviderReview_average:
  assumes "getServiceProvider s (InsertServiceProviderReview.providerId insertReview) = Some provider"
  shows "let s' = snd (createServiceProviderReview s newId now insertReview);
             ratings = map InsertServiceProviderReview.rating
               (filter (\<lambda>r. InsertServiceProviderReview.providerId r
                            = InsertServiceProviderReview.providerId insertReview)
                  (Map_values (serviceProviderReviews s')))
         in ratings \<noteq> []
            \<and> (\<exists>p. getServiceProvider s' (InsertServiceProviderReview.providerId insertReview) = Some p
                  \<and> ServiceProvider.averageRating p
                      = Some (Math_round (of_int (sum_list ratings) / of_nat (length ratings))))"
proof -
  define X where "X = InsertServiceProviderReview.providerId insertReview"
  define review where "review = InsertServiceProviderReview.extend insertReview
            (ServiceProviderReview.fields newId (TimeValue now))"
  define s1 where "s1 = s\<lparr>serviceProviderReviews := Map_set (serviceProviderReviews s) newId review\<rparr>"
  define ratings where "ratings = map InsertServiceProviderReview.rating
            (filter (\<lambda>r. InsertServiceProviderReview.providerId r = X)
               (Map_values (serviceProviderReviews s1)))"
  define upd where "upd = no_updates_ServiceProvider
     \<lparr>PartialServiceProvider.averageRating := Some (Some (Math_round (getAverageRating s1 X)))\<rparr>"
  have s': "snd (createServiceProviderReview s newId now insertReview)
      = snd (updateServiceProvider s1 X upd)"
    by (simp add: createServiceProviderReview_def Let_def s1_def review_def X_def upd_def)
  have p1: "Map_get (serviceProviders s1) X = Some provider"
    using assms by (simp add: s1_def getServiceProvider_def X_def)
  have revs: "serviceProviderReviews (snd (updateServiceProvider s1 X upd))
      = serviceProviderReviews s1"
    by (simp add: updateServiceProvider_def p1 Let_def)
  have "InsertServiceProviderReview.providerId review = X"
    by (simp add: review_def X_def InsertServiceProviderReview.defs)
  moreover have "review \<in> set (Map_values (serviceProviderReviews s1))"
    using Map_set_mem [of newId review "serviceProviderReviews s"]
    by (force simp: s1_def Map_values_def)
  ultimately have ne: "ratings \<noteq> []"
    by (auto simp: ratings_def filter_empty_conv)
  have avg: "getAverageRating s1 X = of_int (sum_list ratings) / of_nat (length ratings)"
    using ne by (simp add: getAverageRating_mean ratings_def Let_def)
  have stored: "getServiceProvider (snd (updateServiceProvider s1 X upd)) X
      = Some (merge_ServiceProvider provider upd)"
    by (simp add: updateServiceProvider_def p1 Let_def getServiceProvider_def Map_get_set)
  have "ServiceProvider.averageRating (merge_ServiceProvider provider upd)
      = Some (Math_round (of_int (sum_list ratings) / of_nat (length ratings)))"
    by (simp add: merge_ServiceProvider_def upd_def spread_def avg)
  with stored ne show ?thesis
    unfolding Let_def s' revs X_def [symmetric] ratings_def [symmetric] by blast
qed

lemma fixit_three_reviews:
  "map_option ServiceProvider.averageRating
     (getServiceProvider (fixit_store [(''r1'', 5), (''r2'', 4), (''r3'', 5)]) ''fixit'')
     = Some (Some 5)"
  by code_simp

text \<open>
  The spec's scenario: FixIt has the ratings 5, 4, 5 and receives a fourth review with
  rating 1; the persisted average becomes \<open>round 3.75 = 4\<close>.  Before, it was 5.
\<close>

theorem createServiceProviderReview_average_witness:
  "getServiceProvider (fixit_store [(''r1'', 5), (''r2'', 4), (''r3'', 5)]) ''fixit'' \<noteq> None
   \<and> (\<exists>p. getServiceProvider
               (snd (createServiceProviderReview
                       (fixit_store [(''r1'', 5), (''r2'', 4), (''r3'', 5)]) ''r4'' 0
                       (fixit_review 1))) ''fixit'' = Some p
          \<and> ServiceProvider.averageRating p = Some 4)
   \<and> map_option ServiceProvider.averageRating
         (getServiceProvider (fixit_store [(''r1'', 5), (''r2'', 4), (''r3'', 5)]) ''fixit'')
       = Some (Some 5)"
proof -
  let ?s = "fixit_store [(''r1'', 5), (''r2'', 4), (''r3'', 5)]"
  let ?rs = "map InsertServiceProviderReview.rating
               (filter (\<lambda>r. InsertServiceProviderReview.providerId r
                            = InsertServiceProviderReview.providerId (fixit_review 1))
                  (Map_values (serviceProviderReviews
                     (snd (createServiceProviderReview ?s ''r4'' 0 (fixit_review 1))))))"
  have ne: "getServiceProvider ?s ''fixit'' \<noteq> None" by code_simp
  have k: "InsertServiceProviderReview.providerId (fixit_review 1) = ''fixit''"
    by (simp add: fixit_review_def)
  from ne obtain provider where
    "getServiceProvider ?s (InsertServiceProviderReview.providerId (fixit_review 1)) = Some provider"
    unfolding k by blast
  from createServiceProviderReview_average [OF this, of "''r4''" 0]
  obtain p where p: "getServiceProvider
        (snd (createServiceProviderReview ?s ''r4'' 0 (fixit_review 1)))
        (InsertServiceProviderReview.providerId (fixit_review 1)) = Some p"
    and avg: "ServiceProvider.averageRating p
            = Some (Math_round (of_int (sum_list ?rs) / of_nat (length ?rs)))"
    unfolding Let_def by blast
  have rs: "?rs = [5, 4, 5, 1]" by code_simp
  have "Math_round (of_int (sum_list [5, 4, 5, 1]) / of_nat (length [5, 4, 5, 1 :: int])) = 4"
    by code_simp
  with avg have "ServiceProvider.averageRating p = Some 4"
    unfolding rs by simp
  with p ne fixit_three_reviews show ?thesis unfolding k by blast
qed

section \<open>Top rated providers\<close>

text \<open>
  C6 says that the list of top rated providers groups the provider reviews by provider,
  gives each provider the mean of its ratings to one decimal place and the number of
  its reviews, leaves out providers without reviews, sorts by the mean and keeps five.
  The analytics route of the server does not: a provider without any review is listed,
  with rating 0; a provider with the ratings 5 and 4 is listed with its persisted
  integer average 5, not 4.5, and with the review count 0.
\<close>

theorem topRatedProviders_lists_unreviewed_provider:
  "getServiceProviderReviews (fixit_store []) ''fixit'' = []
   \<and> map (\<lambda>e. (TopRatedProvider.id e, TopRatedProvider.rating e, TopRatedProvider.reviewCount e))
        (topRatedProviders (fixit_store [])) = [(''fixit'', 0, 0)]
   \<and> map (\<lambda>e. (TopRatedProvider.id e, TopRatedProvider.rating e, TopRatedProvider.reviewCount e))
        (topRatedProviders (fixit_store [(''r1'', 5), (''r2'', 4)])) = [(''fixit'', 5, 0)]"
  by code_simp

section \<open>Deleting a product\<close>

lemma deleteProduct_maps:
  "reviews (snd (deleteProduct s k))
     = fold (\<lambda>review m. Map_delete m (Review.id review)) (getReviewsByProduct s k) (reviews s)"
  "supportRequests (snd (deleteProduct s k))
     = fold (\<lambda>request m. Map_delete m (SupportRequest.id request))
         (getSupportRequestsByProduct s k) (supportRequests s)"
  "products (snd (deleteProduct s k)) = Map_delete (products s) k"
  "fst (deleteProduct s k) = Map_has (products s) k"
  by (simp_all add: deleteProduct_def Let_def getSupportRequestsByProduct_def)

text \<open>
  C7 says that \<^verbatim>\<open>deleteProduct\<close> removes the product and every review and support
  request whose \<^verbatim>\<open>productId\<close> is the product's, so that none stays retrievable, and that
  a second call returns false.  \<^verbatim>\<open>deleteProduct\<close> deletes a child by the \<^verbatim>\<open>id\<close> field of
  the record, not by the key it is stored under.  In the store below the Widget has a
  support request, stored under \<open>r1\<close>, whose \<^verbatim>\<open>id\<close> field \<^verbatim>\<open>updateSupportRequest\<close> has
  set to \<open>zzz\<close>: \<^verbatim>\<open>deleteProduct\<close> returns true and removes the product, but the
  request is still retrieved for the product.  The second call does return false.
\<close>

theorem deleteProduct_leaves_renamed_request:
  "fst (deleteProduct (with_renamed_request ''p1'' widget_store) ''p1'') = True
   \<and> getProduct (snd (deleteProduct (with_renamed_request ''p1'' widget_store) ''p1'')) ''p1'' = None
   \<and> map (\<lambda>r. (InsertSupportRequest.productId r, SupportRequest.id r))
        (getSupportRequestsByProduct
           (snd (deleteProduct (with_renamed_request ''p1'' widget_store) ''p1'')) ''p1'')
       = [(''p1'', ''zzz'')]
   \<and> map fst (supportRequests
        (snd (deleteProduct (with_renamed_request ''p1'' widget_store) ''p1''))) = [''r1'']
   \<and> fst (deleteProduct
        (snd (deleteProduct (with_renamed_request ''p1'' widget_store) ''p1'')) ''p1'') = False"
  by code_simp

text \<open>
  C10 says that \<^verbatim>\<open>deleteProduct\<close> for a product that does not exist still deletes every
  stored review and support request with that \<^verbatim>\<open>productId\<close> and then returns false.
  In the store below no product \<open>ghost\<close> exists and a support request for \<open>ghost\<close>,
  stored under \<open>r1\<close>, has the \<^verbatim>\<open>id\<close> field \<open>zzz\<close>: \<^verbatim>\<open>deleteProduct\<close> returns false
  and the request is still there.
\<close>

theorem deleteProduct_not_found_leaves_renamed_request:
  "getProduct (with_renamed_request ''ghost'' (new_MemStorage [])) ''ghost'' = None
   \<and> fst (deleteProduct (with_renamed_request ''ghost'' (new_MemStorage [])) ''ghost'') = False
   \<and> map (\<lambda>r. (InsertSupportRequest.productId r, SupportRequest.id r))
        (getSupportRequestsByProduct
           (snd (deleteProduct (with_renamed_request ''ghost'' (new_MemStorage [])) ''ghost''))
           ''ghost'')
       = [(''ghost'', ''zzz'')]"
  by code_simp

text \<open>
  What \<^verbatim>\<open>deleteProduct\<close> does achieve: in a store whose reviews and support requests
  carry the key they are stored under as \<^verbatim>\<open>id\<close>, the product and all its reviews and
  support requests are gone afterwards; a second call returns false.  The result of the
  first call tells whether the product existed, whatever the store.
\<close>

lemma deleteProduct_cascade:
  assumes "stored_under_own_id s"
  shows "getProduct (snd (deleteProduct s k)) k = None"
    and "getReviewsByProduct (snd (deleteProduct s k)) k = []"
    and "getSupportRequestsByProduct (snd (deleteProduct s k)) k = []"
    and "fst (deleteProduct s k) = (getProduct s k \<noteq> None)"
    and "fst (deleteProduct (snd (deleteProduct s k)) k) = False"
proof -
  show "getProduct (snd (deleteProduct s k)) k = None"
    by (simp add: getProduct_def deleteProduct_maps Map_get_delete)
  show "fst (deleteProduct s k) = (getProduct s k \<noteq> None)"
    by (simp add: deleteProduct_maps Map_has_def getProduct_def Map_get_def)
  show "fst (deleteProduct (snd (deleteProduct s k)) k) = False"
    by (simp add: deleteProduct_maps Map_has_def Map_delete_def delete_conv')
  have own: "\<forall>(k', r) \<in> set (reviews s). Review.id r = k'"
    "\<forall>(k', r) \<in> set (supportRequests s). SupportRequest.id r = k'"
    using assms by (auto simp: stored_under_own_id_def list_all_iff)
  have "InsertReview.productId r \<noteq> k" if "(k', r) \<in> set (reviews (snd (deleteProduct s k)))"
    for k' r
  proof
    assume p: "InsertReview.productId r = k"
    from that have m: "(k', r) \<in> set (reviews s)"
      and n: "k' \<notin> Review.id ` set (getReviewsByProduct s k)"
      by (simp_all add: deleteProduct_maps set_fold_Map_delete)
    from m p have "r \<in> set (getReviewsByProduct s k)"
      by (force simp: getReviewsByProduct_def set_Array_sort Map_values_def)
    moreover from own(1) m have "Review.id r = k'" by blast
    ultimately show False using n by blast
  qed
  then have "\<forall>x \<in> set (reviews (snd (deleteProduct s k))). InsertReview.productId (snd x) \<noteq> k"
    by (metis prod.collapse)
  then show "getReviewsByProduct (snd (deleteProduct s k)) k = []"
    by (simp add: getReviewsByProduct_def Array_sort_Nil_iff filter_empty_conv Map_values_def)
  have "InsertSupportRequest.productId r \<noteq> k"
    if "(k', r) \<in> set (supportRequests (snd (deleteProduct s k)))" for k' r
  proof
    assume p: "InsertSupportRequest.productId r = k"
    from that have m: "(k', r) \<in> set (supportRequests s)"
      and n: "k' \<notin> SupportRequest.id ` set (getSupportRequestsByProduct s k)"
      by (simp_all add: deleteProduct_maps set_fold_Map_delete)
    from m p have "r \<in> set (getSupportRequestsByProduct s k)"
      by (force simp: getSupportRequestsByProduct_def set_Array_sort Map_values_def)
    moreover from own(2) m have "SupportRequest.id r = k'" by blast
    ultimately show False using n by blast
  qed
  then have "\<forall>x \<in> set (supportRequests (snd (deleteProduct s k))).
      InsertSupportRequest.productId (snd x) \<noteq> k"
    by (metis prod.collapse)
  then show "getSupportRequestsByProduct (snd (deleteProduct s k)) k = []"
    by (simp add: getSupportRequestsByProduct_def Array_sort_Nil_iff filter_empty_conv
        Map_values_def)
qed

text \<open>
  A review may name a product that does not exist; \<^verbatim>\<open>deleteProduct\<close> for that name then
  returns false and yet removes the review.
\<close>

lemma deleteProduct_not_found_changes_store:
  "getProduct (snd (createReview (new_MemStorage []) ''v1'' 0 (praise ''ghost''))) ''ghost'' = None
   \<and> map fst (reviews (snd (createReview (new_MemStorage []) ''v1'' 0 (praise ''ghost'')))) = [''v1'']
   \<and> fst (deleteProduct (snd (createReview (new_MemStorage []) ''v1'' 0 (praise ''ghost''))) ''ghost'')
       = False
   \<and> reviews (snd (deleteProduct
        (snd (createReview (new_MemStorage []) ''v1'' 0 (praise ''ghost''))) ''ghost'')) = []"
  by code_simp

lemma children_unchanged:
  "reviews (snd (createBrand s newId b)) = reviews s
   \<and> supportRequests (snd (createBrand s newId b)) = supportRequests s"
  "reviews (snd (createProduct zone s newId p)) = reviews s
   \<and> supportRequests (snd (createProduct zone s newId p)) = supportRequests s"
  "reviews (snd (updateProduct s k up)) = reviews s
   \<and> supportRequests (snd (updateProduct s k up)) = supportRequests s"
  "reviews (snd (addWarrantyExtension s k e)) = reviews s
   \<and> supportRequests (snd (addWarrantyExtension s k e)) = supportRequests s"
  "reviews (snd (createServiceProvider s newId now sp)) = reviews s
   \<and> supportRequests (snd (createServiceProvider s newId now sp)) = supportRequests s"
  "reviews (snd (updateServiceProvider s k usp)) = reviews s
   \<and> supportRequests (snd (updateServiceProvider s k usp)) = supportRequests s"
  "reviews (snd (deleteServiceProvider s k)) = reviews s
   \<and> supportRequests (snd (deleteServiceProvider s k)) = supportRequests s"
  "reviews (snd (createServiceProviderReview s newId now spr)) = reviews s
   \<and> supportRequests (snd (createServiceProviderReview s newId now spr)) = supportRequests s"
  "reviews (snd (createNotification s newId now n)) = reviews s
   \<and> supportRequests (snd (createNotification s newId now n)) = supportRequests s"
  "reviews (snd (markNotificationAsSent s k now)) = reviews s
   \<and> supportRequests (snd (markNotificationAsSent s k now)) = supportRequests s"
  "reviews (snd (toggleFavorite s newId now favType target)) = reviews s
   \<and> supportRequests (snd (toggleFavorite s newId now favType target)) = supportRequests s"
  "reviews (snd (saveClientProfile s newId now cp)) = reviews s
   \<and> supportRequests (snd (saveClientProfile s newId now cp)) = supportRequests s"
  "reviews (snd (updateClientProfile s now ucp)) = reviews s
   \<and> supportRequests (snd (updateClientProfile s now ucp)) = supportRequests s"
  by (simp_all add: createBrand_def createProduct_def updateProduct_def
      addWarrantyExtension_def createServiceProvider_def updateServiceProvider_def
      deleteServiceProvider_def createServiceProviderReview_def createNotification_def
      markNotificationAsSent_def toggleFavorite_def saveClientProfile_def
      updateClientProfile_def Let_def split: option.split)

text \<open>
  Records are stored under their own \<^verbatim>\<open>id\<close> initially, and every operation keeps it so,
  except \<^verbatim>\<open>updateSupportRequest\<close> with an \<^verbatim>\<open>id\<close> among the updates.
\<close>

lemma stored_under_own_id_initial: "stored_under_own_id (new_MemStorage bs)"
  by (simp add: stored_under_own_id_def new_MemStorage_def)

lemma stored_under_own_id_preserved:
  assumes own: "stored_under_own_id s"
    and ok: "case op of UpdateSupportRequest k u \<Rightarrow> PartialSupportRequest.id u = None | _ \<Rightarrow> True"
  shows "stored_under_own_id (perform zone s op)"
proof (cases op)
  case (CreateReview newId now r)
  with own show ?thesis
    by (simp add: stored_under_own_id_def createReview_def Let_def list_all_entries_Map_set
        InsertReview.defs Review.defs)
next
  case (CreateSupportRequest newId now now' r)
  with own show ?thesis
    by (simp add: stored_under_own_id_def createSupportRequest_def Let_def
        list_all_entries_Map_set InsertSupportRequest.defs SupportRequest.defs)
next
  case (UpdateSupportRequest k u)
  with ok have u: "PartialSupportRequest.id u = None" by simp
  show ?thesis
  proof (cases "Map_get (supportRequests s) k")
    case None
    with own show ?thesis by (simp add: UpdateSupportRequest updateSupportRequest_def)
  next
    case (Some r)
    from own have "list_all (\<lambda>(k, r). SupportRequest.id r = k) (supportRequests s)"
      by (simp add: stored_under_own_id_def)
    from list_all_entries_Map_get [OF this Some] have "SupportRequest.id r = k" by simp
    with own u show ?thesis
      by (simp add: UpdateSupportRequest updateSupportRequest_def Some Let_def
          stored_under_own_id_def list_all_entries_Map_set merge_SupportRequest_def spread_def)
  qed
next
  case (DeleteProduct k)
  with own show ?thesis
    by (simp add: stored_under_own_id_def deleteProduct_maps list_all_entries_fold_delete)
qed (use own in \<open>simp_all add: stored_under_own_id_def children_unchanged\<close>)

section \<open>Favorites\<close>

lemma favorites_unchanged:
  "favorites (snd (createBrand s newId b)) = favorites s"
  "favorites (snd (createProduct zone s newId p)) = favorites s"
  "favorites (snd (updateProduct s k up)) = favorites s"
  "favorites (snd (deleteProduct s k)) = favorites s"
  "favorites (snd (addWarrantyExtension s k e)) = favorites s"
  "favorites (snd (createReview s newId now r)) = favorites s"
  "favorites (snd (createSupportRequest s newId now now' q)) = favorites s"
  "favorites (snd (updateSupportRequest s k uq)) = favorites s"
  "favorites (snd (createServiceProvider s newId now sp)) = favorites s"
  "favorites (snd (updateServiceProvider s k usp)) = favorites s"
  "favorites (snd (deleteServiceProvider s k)) = favorites s"
  "favorites (snd (createServiceProviderReview s newId now spr)) = favorites s"
  "favorites (snd (createNotification s newId now n)) = favorites s"
  "favorites (snd (markNotificationAsSent s k now)) = favorites s"
  "favorites (snd (saveClientProfile s newId now cp)) = favorites s"
  "favorites (snd (updateClientProfile s now ucp)) = favorites s"
  by (simp_all add: createBrand_def createProduct_def updateProduct_def deleteProduct_def
      addWarrantyExtension_def createReview_def createSupportRequest_def
      updateSupportRequest_def createServiceProvider_def updateServiceProvider_def
      deleteServiceProvider_def createServiceProviderReview_def createNotification_def
      markNotificationAsSent_def saveClientProfile_def
      updateClientProfile_def Let_def split: option.split)

lemma isFavorite_iff:
  "isFavorite s favType target \<longleftrightarrow>
     (\<exists>(k, f) \<in> set (favorites s). Favorite.type f = favType \<and> Favorite.targetId f = target)"
  by (force simp: isFavorite_def list_ex_iff Map_values_def)

lemma favorites_unique_iff:
  "favorites_unique m \<longleftrightarrow>
     distinct (map (\<lambda>(k, f). (Favorite.type f, Favorite.targetId f)) m)"
  by (simp add: favorites_unique_def Map_values_def comp_def split_def)

lemma toggleFavorite_absent:
  assumes "\<not> isFavorite s favType target"
  shows "toggleFavorite s newId now favType target =
    (True, s\<lparr>favorites := Map_set (favorites s) newId
       \<lparr>Favorite.id = newId, type = favType, targetId = target, createdAt = TimeValue now\<rparr>\<rparr>)"
  using assms by (simp add: toggleFavorite_def isFavorite_def)

lemma toggleFavorite_present:
  assumes "isFavorite s favType target"
  obtains k f where "(k, f) \<in> set (favorites s)"
    and "Favorite.type f = favType" "Favorite.targetId f = target"
    and "toggleFavorite s newId now favType target =
           (False, s\<lparr>favorites := Map_delete (favorites s) k\<rparr>)"
proof -
  from assms have "find (\<lambda>(k, f). Favorite.type f = favType \<and> Favorite.targetId f = target)
      (favorites s) \<noteq> None"
    by (auto simp: isFavorite_iff find_None_iff)
  then obtain k f where
    fd: "find (\<lambda>(k, f). Favorite.type f = favType \<and> Favorite.targetId f = target)
      (favorites s) = Some (k, f)"
    by fastforce
  then have "(k, f) \<in> set (favorites s)" "Favorite.type f = favType" "Favorite.targetId f = target"
    by (auto simp: find_Some_iff in_set_conv_nth)
  moreover have "toggleFavorite s newId now favType target =
           (False, s\<lparr>favorites := Map_delete (favorites s) k\<rparr>)"
    using assms fd by (simp add: toggleFavorite_def isFavorite_def)
  ultimately show thesis by (rule that)
qed

lemma favorites_unique_toggle:
  assumes "favorites_unique (favorites s)"
  shows "favorites_unique (favorites (snd (toggleFavorite s newId now favType target)))"
proof (cases "isFavorite s favType target")
  case True
  then obtain k f where "toggleFavorite s newId now favType target =
           (False, s\<lparr>favorites := Map_delete (favorites s) k\<rparr>)"
    by (rule toggleFavorite_present)
  with assms show ?thesis
    by (simp add: favorites_unique_iff Map_delete_def AList.delete_eq distinct_map_filter)
next
  case False
  then have "\<forall>x \<in> set (favorites s).
      (\<lambda>(k, f). (Favorite.type f, Favorite.targetId f)) x \<noteq> (favType, target)"
    by (auto simp: isFavorite_iff)
  with assms show ?thesis
    by (simp add: toggleFavorite_absent [OF False] favorites_unique_iff Map_set_def
        distinct_map_update)
qed

lemma reachable_favorites_unique:
  "reachable zone s \<Longrightarrow> favorites_unique (favorites s)"
proof (induction rule: reachable.induct)
  case (initial bs)
  show ?case by (simp add: new_MemStorage_def favorites_unique_def Map_values_def)
next
  case (step s op)
  then show ?case
    by (cases op) (simp_all add: favorites_unchanged favorites_unique_toggle)
qed

lemma toggleFavorite_once:
  assumes "favorites_unique (favorites s)"
  shows "fst (toggleFavorite s newId now favType target) = (\<not> isFavorite s favType target)"
    and "isFavorite (snd (toggleFavorite s newId now favType target)) favType target
          = (\<not> isFavorite s favType target)"
proof -
  show "fst (toggleFavorite s newId now favType target) = (\<not> isFavorite s favType target)"
    by (simp add: toggleFavorite_def isFavorite_def split: option.split)
  show "isFavorite (snd (toggleFavorite s newId now favType target)) favType target
          = (\<not> isFavorite s favType target)"
  proof (cases "isFavorite s favType target")
    case True
    then obtain k f where kf: "(k, f) \<in> set (favorites s)"
      "Favorite.type f = favType" "Favorite.targetId f = target"
      and t: "toggleFavorite s newId now favType target =
           (False, s\<lparr>favorites := Map_delete (favorites s) k\<rparr>)"
      by (rule toggleFavorite_present)
    have "\<not> isFavorite (s\<lparr>favorites := Map_delete (favorites s) k\<rparr>) favType target"
    proof
      assume "isFavorite (s\<lparr>favorites := Map_delete (favorites s) k\<rparr>) favType target"
      then obtain k' f' where kf': "(k', f') \<in> set (favorites s)" "k' \<noteq> k"
        "Favorite.type f' = favType" "Favorite.targetId f' = target"
        by (auto simp: isFavorite_iff Map_delete_def AList.delete_eq)
      from assms have "inj_on (\<lambda>(k, f). (Favorite.type f, Favorite.targetId f)) (set (favorites s))"
        by (simp add: favorites_unique_iff distinct_map)
      from inj_onD [OF this _ kf'(1) kf(1)] kf kf' show False by simp
    qed
    with True t show ?thesis by simp
  next
    case False
    have "isFavorite (s\<lparr>favorites := Map_set (favorites s) newId
       \<lparr>Favorite.id = newId, type = favType, targetId = target, createdAt = TimeValue now\<rparr>\<rparr>)
       favType target"
      using Map_set_mem [of newId _ "favorites s"] by (force simp: isFavorite_iff)
    with False show ?thesis by (simp add: toggleFavorite_absent [OF False])
  qed
qed

text \<open>
  C8: in every state of the store (the fields of \<^verbatim>\<open>MemStorage\<close> are private, so its
  states are those that the operations produce from a new store), for every type and
  target, \<^verbatim>\<open>toggleFavorite\<close> returns the negation of \<^verbatim>\<open>isFavorite\<close> before the call,
  \<^verbatim>\<open>isFavorite\<close> after the call is the returned value, and a second toggle restores
  the original membership.
\<close>

theorem toggleFavorite_flips:
  assumes "reachable zone s"
  shows "fst (toggleFavorite s newId now favType target) = (\<not> isFavorite s favType target)
    \<and> isFavorite (snd (toggleFavorite s newId now favType target)) favType target
        = fst (toggleFavorite s newId now favType target)
    \<and> isFavorite
        (snd (toggleFavorite (snd (toggleFavorite s newId now favType target))
                newId' now' favType target)) favType target
        = isFavorite s favType target"
proof -
  have u: "favorites_unique (favorites s)"
    using assms by (rule reachable_favorites_unique)
  have u': "favorites_unique (favorites (snd (toggleFavorite s newId now favType target)))"
    using u by (rule favorites_unique_toggle)
  show ?thesis
    using toggleFavorite_once [OF u, of newId now favType target]
      toggleFavorite_once(2) [OF u', of newId' now' favType target]
    by simp
qed

text \<open>
  A favorite that was toggled on is toggled off again.
\<close>

theorem toggleFavorite_flips_witness:
  "reachable utc (perform utc (new_MemStorage []) (ToggleFavorite ''f1'' 0 ''product'' ''p1''))
   \<and> isFavorite (perform utc (new_MemStorage []) (ToggleFavorite ''f1'' 0 ''product'' ''p1''))
        ''product'' ''p1''
   \<and> fst (toggleFavorite
             (perform utc (new_MemStorage []) (ToggleFavorite ''f1'' 0 ''product'' ''p1''))
             ''f2'' 1 ''product'' ''p1'') = False
   \<and> \<not> isFavorite
          (snd (toggleFavorite
                  (perform utc (new_MemStorage []) (ToggleFavorite ''f1'' 0 ''product'' ''p1''))
                  ''f2'' 1 ''product'' ''p1'')) ''product'' ''p1''"
proof -
  let ?s = "perform utc (new_MemStorage []) (ToggleFavorite ''f1'' 0 ''product'' ''p1'')"
  have r: "reachable utc ?s" by (intro reachable.step reachable.initial)
  have f: "isFavorite ?s ''product'' ''p1''" by code_simp
  from toggleFavorite_flips [OF r, of "''f2''" 1 "''product''" "''p1''"] r f
  show ?thesis by simp
qed

section \<open>The client profile\<close>

text \<open>
  C9: \<^verbatim>\<open>saveClientProfile\<close> stores a record made of the given fields, the fresh
  identifier and the save time as both \<^verbatim>\<open>createdAt\<close> and \<^verbatim>\<open>updatedAt\<close>; the record
  does not depend on the store (\<open>s0\<close> is any other store), so nothing of a prior profile
  is kept, and \<^verbatim>\<open>getClientProfile\<close> then returns exactly this record.
\<close>

theorem saveClientProfile_replaces:
  "getClientProfile (snd (saveClientProfile s newId now profile))
     = Some (fst (saveClientProfile s newId now profile))
   \<and> fst (saveClientProfile s newId now profile) = fst (saveClientProfile s0 newId now profile)
   \<and> ClientProfile.id (fst (saveClientProfile s newId now profile)) = newId
   \<and> ClientProfile.createdAt (fst (saveClientProfile s newId now profile)) = TimeValue now
   \<and> ClientProfile.updatedAt (fst (saveClientProfile s newId now profile)) = TimeValue now
   \<and> InsertClientProfile.truncate (fst (saveClientProfile s newId now profile)) = profile"
  by (simp add: saveClientProfile_def getClientProfile_def Let_def
      InsertClientProfile.defs ClientProfile.defs)

end
